theory Spec2Isabelle
  imports Complex_Main "HOL-Library.Word"
begin

unbundle bit_operations_syntax

section \<open>Shared data model (app/devices/ble_manager.py)\<close>

text \<open>
  Conventions of the embedding.
  \<^item> A Python number is a \<open>pynum\<close>: an unbounded \<open>int\<close> or a \<open>float\<close>. A float
    is the real number that the IEEE 754 double denotes; every float operation is the
    exact operation followed by \<open>round_double\<close> (round to nearest, ties to even,
    53 bits). Infinities and NaN are not modelled: no operation of the modelled code
    reaches them on finite inputs below the largest double. A float literal of the
    source that is only stored and compared (\<open>0.3\<close>, \<open>0.8\<close>) is written as its
    decimal.
  \<^item> A \<open>datetime\<close> is an \<open>int\<close>: microseconds since a fixed epoch. Every call of
    \<open>datetime.utcnow()\<close> is an explicit argument of the function that makes it, one
    argument per call, in evaluation order.
  \<^item> A caught exception is a value \<open>PyExc kind message\<close>; \<open>str(e)\<close> is the message.
  \<^item> Where two dataclasses share a field name, the later record prefixes it
    (\<open>reading_\<close>, \<open>cal_\<close>, \<open>metrics_\<close>); \<open>values\<close> is \<open>reading_values\<close> and
    \<open>notes\<close> is \<open>cal_notes\<close>, the plain names being reserved words.
\<close>

type_synonym byte = "8 word"
type_synonym datetime = int

datatype exc_kind =
  ExceptionK | ValueError | TypeError | IndexError | KeyError | StructError
  | NotImplementedError | BleakError

datatype py_exception = PyExc exc_kind string

fun str_exc :: "py_exception \<Rightarrow> string" where
  "str_exc (PyExc k msg) = msg"

section \<open>Python numbers\<close>

datatype pynum = PyInt int | PyFloat real

datatype pyval = PyNum pynum | PyStr string | PyNone

text \<open>Round to the nearest integer, a tie to the even neighbour.\<close>

definition round_half_even :: "real \<Rightarrow> int" where
  "round_half_even x =
     (let f = \<lfloor>x\<rfloor>; r = x - of_int f
      in if r < 1/2 then f else if r > 1/2 then f + 1 else if even f then f else f + 1)"

text \<open>
  The binary exponent of a double of magnitude \<open>x\<close>: the largest \<open>e\<close> from 1023
  down with \<open>2 ^ e \<le> x\<close>, and -1022 for the subnormal range.
\<close>

function double_exponent_from :: "int \<Rightarrow> real \<Rightarrow> int" where
  "double_exponent_from e x =
     (if e \<le> -1022 \<or> 2 powi e \<le> x then e else double_exponent_from (e - 1) x)"
  by pat_completeness auto
termination
  by (relation "measure (\<lambda>(e, x). nat (e + 1022))") auto

declare double_exponent_from.simps [simp del]

text \<open>
  The double nearest to a real: the multiple of the unit in the last place
  \<open>2 ^ (e - 52)\<close> nearest to it, a tie going to the even multiple.
\<close>

definition round_double :: "real \<Rightarrow> real" where
  "round_double x =
     (if x = 0 then 0
      else let e = double_exponent_from 1023 \<bar>x\<bar>;
               ulp = 2 powi (e - 52)
           in of_int (round_half_even (x / ulp)) * ulp)"

text \<open>The value of a number, as the comparisons of Python see it (they are exact).\<close>

definition num_val :: "pynum \<Rightarrow> real" where
  "num_val x = (case x of PyInt i \<Rightarrow> of_int i | PyFloat y \<Rightarrow> y)"

text \<open>\<open>float(x)\<close>, the conversion a mixed operation applies to its int operand.\<close>

definition to_float :: "pynum \<Rightarrow> real" where
  "to_float x = (case x of PyInt i \<Rightarrow> round_double (of_int i) | PyFloat y \<Rightarrow> y)"

definition float_sub :: "real \<Rightarrow> real \<Rightarrow> real" where
  "float_sub a b = round_double (a - b)"

text \<open>\<open>a - b\<close> and \<open>a + b\<close>: exact on two ints, a rounded float operation otherwise.\<close>

definition py_sub :: "pynum \<Rightarrow> pynum \<Rightarrow> pynum" where
  "py_sub a b =
     (case (a, b) of
        (PyInt i, PyInt j) \<Rightarrow> PyInt (i - j)
      | _ \<Rightarrow> PyFloat (float_sub (to_float a) (to_float b)))"

definition py_add :: "pynum \<Rightarrow> pynum \<Rightarrow> pynum" where
  "py_add a b =
     (case (a, b) of
        (PyInt i, PyInt j) \<Rightarrow> PyInt (i + j)
      | _ \<Rightarrow> PyFloat (round_double (to_float a + to_float b)))"

text \<open>
  \<open>x / n\<close> for a positive count \<open>n\<close>: true division gives the correctly rounded
  quotient, for an int as for a float dividend.
\<close>

definition py_truediv :: "pynum \<Rightarrow> nat \<Rightarrow> real" where
  "py_truediv x n = round_double (num_val x / real n)"

text \<open>The text of a TypeError of \<open>+\<close>, and \<open>repr\<close> of a plain string.\<close>

definition py_quote :: "string \<Rightarrow> string" where
  "py_quote s = CHR 0x27 # s @ [CHR 0x27]"

definition type_name :: "pynum \<Rightarrow> string" where
  "type_name x = (case x of PyInt i \<Rightarrow> ''int'' | PyFloat y \<Rightarrow> ''float'')"

definition add_type_error :: "pynum \<Rightarrow> string \<Rightarrow> py_exception" where
  "add_type_error acc right =
     PyExc TypeError
       (''unsupported operand type(s) for +: '' @ py_quote (type_name acc) @ '' and ''
          @ py_quote right)"

section \<open>Devices and readings\<close>

datatype DeviceType =
  BLOOD_PRESSURE | PULSE_OXIMETER | THERMOMETER | WEIGHT_SCALE | HEIGHT_METER | GLUCOSE_METER

datatype DeviceStatus =
  DISCONNECTED | CONNECTING | CONNECTED | READING | ERROR | CALIBRATING

record DeviceInfo =
  device_id :: string
  name :: string
  manufacturer :: string
  model :: string
  device_type :: DeviceType
  mac_address :: string
  rssi :: int
  battery_level :: "int option"
  firmware_version :: "string option"
  last_seen :: "datetime option"
  is_paired :: bool
  calibration_status :: string

record DeviceReading =
  reading_device_id :: string
  reading_device_type :: DeviceType
  timestamp :: datetime
  reading_values :: "string \<rightharpoonup> pyval"
  unit :: string
  quality_score :: real
  metadata :: "string \<rightharpoonup> pyval"

section \<open>ReadingCodec: blood pressure (BloodPressureDriver)\<close>

text \<open>\<open>data[i:j]\<close> for \<open>0 \<le> i \<le> j\<close>: the slice is shorter when the buffer is.\<close>

definition py_slice :: "'a list \<Rightarrow> nat \<Rightarrow> nat \<Rightarrow> 'a list" where
  "py_slice xs i j = take (j - i) (drop i xs)"

text \<open>\<open>struct.unpack('<H', b)[0]\<close>: exactly two bytes, little endian; else \<open>struct.error\<close>.\<close>

definition unpack_H :: "byte list \<Rightarrow> py_exception + nat" where
  "unpack_H bs =
     (case bs of
        [lo, hi] \<Rightarrow> Inr (unat lo + 256 * unat hi)
      | _ \<Rightarrow> Inl (PyExc StructError ''unpack requires a buffer of 2 bytes''))"

definition hex_digit :: "nat \<Rightarrow> char" where
  "hex_digit n = ''0123456789abcdef'' ! (n mod 16)"

definition hex_of_bytes :: "byte list \<Rightarrow> string" where
  "hex_of_bytes bs = concat (map (\<lambda>b. [hex_digit (unat b div 16), hex_digit (unat b)]) bs)"

definition calculate_quality_score :: "pynum \<Rightarrow> pynum \<Rightarrow> real" where
  "calculate_quality_score systolic diastolic =
     (if \<not> (50 \<le> num_val systolic \<and> num_val systolic \<le> 250) \<or>
         \<not> (30 \<le> num_val diastolic \<and> num_val diastolic \<le> 150)
      then 0.3
      else if num_val systolic \<le> num_val diastolic then 0.4
      else let pulse_pressure = py_sub systolic diastolic
           in if num_val pulse_pressure < 20 \<or> num_val pulse_pressure > 100 then 0.6 else 0.9)"

text \<open>
  The unit conversion of \<open>_handle_bp_measurement\<close>: the float \<open>x / 1000.0\<close> when
  bit 0 of the flags is set, the raw int otherwise.
\<close>

definition bp_scale :: "bool \<Rightarrow> nat \<Rightarrow> pynum" where
  "bp_scale unit_kpa raw =
     (if unit_kpa then PyFloat (round_double (real raw / 1000)) else PyInt (int raw))"

text \<open>
  The optional pulse-rate field: read at offset 7, or 14 when the timestamp flag (bit 1)
  is set, if the pulse-rate flag (bit 2) is set and the buffer is longer than the offset.
  A single trailing byte makes \<open>struct.unpack\<close> raise.
\<close>

definition bp_pulse_rate :: "byte \<Rightarrow> byte list \<Rightarrow> py_exception + nat option" where
  "bp_pulse_rate flags data =
     (let timestamp_present = (flags AND 0x02 \<noteq> 0);
          pulse_rate_present = (flags AND 0x04 \<noteq> 0);
          offset = (if timestamp_present then 7 + 7 else 7)
      in if pulse_rate_present \<and> length data > offset
         then (case unpack_H (py_slice data offset (offset + 2)) of
                 Inl e \<Rightarrow> Inl e | Inr p \<Rightarrow> Inr (Some p))
         else Inr None)"

text \<open>The \<open>DeviceReading(...)\<close> expression of \<open>_handle_bp_measurement\<close>.\<close>

definition bp_reading ::
  "DeviceInfo \<Rightarrow> datetime \<Rightarrow> byte list \<Rightarrow> byte \<Rightarrow> nat \<Rightarrow> nat \<Rightarrow> nat \<Rightarrow> nat option \<Rightarrow> DeviceReading" where
  "bp_reading info now data flags sys_raw dia_raw mean_raw pulse_rate =
     (let unit_kpa = (flags AND 0x01 \<noteq> 0);
          systolic = bp_scale unit_kpa sys_raw;
          diastolic = bp_scale unit_kpa dia_raw;
          mean_pressure = bp_scale unit_kpa mean_raw
      in \<lparr> reading_device_id = device_id info,
            reading_device_type = BLOOD_PRESSURE,
            timestamp = now,
            reading_values =
              [''systolic'' \<mapsto> PyNum systolic,
               ''diastolic'' \<mapsto> PyNum diastolic,
               ''mean_pressure'' \<mapsto> PyNum mean_pressure,
               ''pulse_rate'' \<mapsto>
                  (case pulse_rate of None \<Rightarrow> PyNone | Some p \<Rightarrow> PyNum (PyInt (int p)))],
            unit = (if unit_kpa then ''kPa'' else ''mmHg''),
            quality_score = calculate_quality_score systolic diastolic,
            metadata =
              [''flags'' \<mapsto> PyNum (PyInt (uint flags)),
               ''raw_data'' \<mapsto> PyStr (hex_of_bytes data)] \<rparr>)"

text \<open>
  The body of the \<open>try\<close> block of \<open>_handle_bp_measurement\<close>, in the order of the
  source: flags, the three 16-bit fields, the optional pulse rate, the reading.
  \<open>now\<close> is the value of its one \<open>datetime.utcnow()\<close> call. \<open>data[0]\<close> raises
  IndexError on an empty buffer.
\<close>

definition bp_parse :: "DeviceInfo \<Rightarrow> datetime \<Rightarrow> byte list \<Rightarrow> py_exception + DeviceReading" where
  "bp_parse info now data =
     (case data of
        [] \<Rightarrow> Inl (PyExc IndexError ''bytearray index out of range'')
      | flags # _ \<Rightarrow>
          (case unpack_H (py_slice data 1 3) of Inl e \<Rightarrow> Inl e | Inr sys_raw \<Rightarrow>
          (case unpack_H (py_slice data 3 5) of Inl e \<Rightarrow> Inl e | Inr dia_raw \<Rightarrow>
          (case unpack_H (py_slice data 5 7) of Inl e \<Rightarrow> Inl e | Inr mean_raw \<Rightarrow>
          (case bp_pulse_rate flags data of Inl e \<Rightarrow> Inl e | Inr pulse_rate \<Rightarrow>
             Inr (bp_reading info now data flags sys_raw dia_raw mean_raw pulse_rate))))))"


definition bp_well_formed :: "byte list \<Rightarrow> bool" where
  "bp_well_formed data =
     (7 \<le> length data \<and>
      (let offset = (if data ! 0 AND 0x02 \<noteq> 0 then 14 else 7)
       in data ! 0 AND 0x04 \<noteq> 0 \<and> offset < length data \<longrightarrow> offset + 2 \<le> length data))"

text \<open>
  \<open>_handle_bp_measurement\<close>: the reading handed to the callbacks, or \<open>None\<close> when the
  \<open>except\<close> branch logged the error and dropped the payload.
\<close>

definition handle_bp_measurement :: "DeviceInfo \<Rightarrow> datetime \<Rightarrow> byte list \<Rightarrow> DeviceReading option" where
  "handle_bp_measurement info now data =
     (case bp_parse info now data of Inl e \<Rightarrow> None | Inr reading \<Rightarrow> Some reading)"

section \<open>DeviceDriver and its subclasses\<close>

text \<open>
  The BLE client library is external. A client object is the address it was built for
  and its \<open>is_connected\<close> property: false on a new client and after a \<open>connect()\<close>
  that raised, true after a \<open>connect()\<close> that returned, false after a \<open>disconnect()\<close>
  that returned, unchanged by a call that raised. Whether a transport call returns or
  raises is an input (\<open>ble_env\<close>), as is the import-time flag \<open>BLE_AVAILABLE\<close>.
\<close>

record BleakClient =
  address :: string
  is_connected :: bool

datatype call_outcome = Returns | Raises py_exception

record ble_env =
  BLE_AVAILABLE :: bool
  connect_outcome :: call_outcome
  start_notify_outcome :: call_outcome
  stop_notify_outcome :: call_outcome
  disconnect_outcome :: call_outcome

datatype driver_class =
  DeviceDriverClass | BloodPressureDriverClass | PulseOximeterDriverClass | ThermometerDriverClass

text \<open>The only callback the repository registers: \<open>DeviceManager._handle_device_reading\<close>.\<close>

datatype callback = HandleDeviceReading

record DeviceDriver =
  driver_class :: driver_class
  device_info :: DeviceInfo
  status :: DeviceStatus
  client :: "BleakClient option"
  callbacks :: "callback list"

text \<open>\<open>DeviceDriver.__init__\<close> (the subclasses add fields nothing reads).\<close>

definition new_driver :: "driver_class \<Rightarrow> DeviceInfo \<Rightarrow> DeviceDriver" where
  "new_driver cls info =
     \<lparr> driver_class = cls, device_info = info, status = DISCONNECTED,
       client = None, callbacks = [] \<rparr>"

text \<open>
  \<open>connect\<close> of BloodPressureDriver, PulseOximeterDriver and ThermometerDriver: the
  three bodies differ in the characteristic subscribed to and in what they log.
\<close>

definition ble_connect :: "ble_env \<Rightarrow> DeviceDriver \<Rightarrow> bool \<times> DeviceDriver" where
  "ble_connect env drv =
     (if \<not> BLE_AVAILABLE env then (False, drv)
      else
        let new_client = \<lparr> address = mac_address (device_info drv), is_connected = False \<rparr>;
            drv1 = drv\<lparr> status := CONNECTING, client := Some new_client \<rparr>
        in case connect_outcome env of
             Raises e \<Rightarrow> (False, drv1\<lparr> status := ERROR \<rparr>)
           | Returns \<Rightarrow>
               let drv2 = drv1\<lparr> client := Some (new_client\<lparr> is_connected := True \<rparr>) \<rparr>
               in (case start_notify_outcome env of
                     Raises e \<Rightarrow> (False, drv2\<lparr> status := ERROR \<rparr>)
                   | Returns \<Rightarrow> (True, drv2\<lparr> status := CONNECTED \<rparr>)))"

text \<open>\<open>connect\<close> by class; the base class raises NotImplementedError.\<close>

definition connect :: "ble_env \<Rightarrow> DeviceDriver \<Rightarrow> py_exception + (bool \<times> DeviceDriver)" where
  "connect env drv =
     (case driver_class drv of
        DeviceDriverClass \<Rightarrow> Inl (PyExc NotImplementedError [])
      | _ \<Rightarrow> Inr (ble_connect env drv))"

text \<open>
  \<open>disconnect\<close> of BloodPressureDriver and PulseOximeterDriver: everything, the
  assignment to \<open>status\<close> included, is under
  \<open>if self.client and self.client.is_connected\<close>, and an exception of either transport
  call is logged before the assignment is reached.
\<close>

definition ble_disconnect :: "ble_env \<Rightarrow> DeviceDriver \<Rightarrow> DeviceDriver" where
  "ble_disconnect env drv =
     (case client drv of
        None \<Rightarrow> drv
      | Some c \<Rightarrow>
          if is_connected c then
            (case stop_notify_outcome env of
               Raises e \<Rightarrow> drv
             | Returns \<Rightarrow>
                 (case disconnect_outcome env of
                    Raises e \<Rightarrow> drv
                  | Returns \<Rightarrow>
                      drv\<lparr> client := Some (c\<lparr> is_connected := False \<rparr>),
                           status := DISCONNECTED \<rparr>))
          else drv)"

text \<open>
  \<open>disconnect\<close> by class: ThermometerDriver does not override it, so it and the base
  class raise NotImplementedError.
\<close>

definition disconnect :: "ble_env \<Rightarrow> DeviceDriver \<Rightarrow> py_exception + DeviceDriver" where
  "disconnect env drv =
     (case driver_class drv of
        BloodPressureDriverClass \<Rightarrow> Inr (ble_disconnect env drv)
      | PulseOximeterDriverClass \<Rightarrow> Inr (ble_disconnect env drv)
      | _ \<Rightarrow> Inl (PyExc NotImplementedError []))"

text \<open>
  \<open>BloodPressureDriver.read_data\<close>: the status passes through \<open>READING\<close> during the
  sleep and the result is always \<open>None\<close> (the data comes by notification).
\<close>

definition bp_read_data :: "DeviceDriver \<Rightarrow> DeviceReading option \<times> DeviceDriver" where
  "bp_read_data drv =
     (if status drv \<noteq> CONNECTED then (None, drv)
      else let drv1 = drv\<lparr> status := READING \<rparr>
           in (None, drv1\<lparr> status := CONNECTED \<rparr>))"

text \<open>\<open>read_data\<close> by class: only BloodPressureDriver overrides the raising base method.\<close>

definition read_data :: "DeviceDriver \<Rightarrow> py_exception + (DeviceReading option \<times> DeviceDriver)" where
  "read_data drv =
     (case driver_class drv of
        BloodPressureDriverClass \<Rightarrow> Inr (bp_read_data drv)
      | _ \<Rightarrow> Inl (PyExc NotImplementedError []))"

text \<open>The guard of \<open>disconnect\<close>: a client exists and reports a live connection.\<close>

definition link_up :: "DeviceDriver \<Rightarrow> bool" where
  "link_up drv = (case client drv of None \<Rightarrow> False | Some c \<Rightarrow> is_connected c)"

section \<open>DeviceManager\<close>

record DeviceManager =
  devices :: "string \<rightharpoonup> DeviceDriver"

definition create_driver :: "DeviceInfo \<Rightarrow> DeviceDriver" where
  "create_driver info =
     (if device_type info = BLOOD_PRESSURE then new_driver BloodPressureDriverClass info
      else if device_type info = PULSE_OXIMETER then new_driver PulseOximeterDriverClass info
      else if device_type info = THERMOMETER then new_driver ThermometerDriverClass info
      else new_driver DeviceDriverClass info)"

definition add_callback :: "callback \<Rightarrow> DeviceDriver \<Rightarrow> DeviceDriver" where
  "add_callback cb drv = drv\<lparr> callbacks := callbacks drv @ [cb] \<rparr>"

text \<open>
  \<open>connect_device\<close>: the result and the manager afterwards. The driver is a local
  object until it is stored, so a failed attempt leaves nothing behind.
\<close>

definition connect_device :: "ble_env \<Rightarrow> DeviceManager \<Rightarrow> DeviceInfo \<Rightarrow> bool \<times> DeviceManager" where
  "connect_device env mgr info =
     (case connect env (create_driver info) of
        Inl e \<Rightarrow> (False, mgr)
      | Inr (success, driver) \<Rightarrow>
          if success
          then (True, mgr\<lparr> devices := (devices mgr)
                  (device_id info \<mapsto> add_callback HandleDeviceReading driver) \<rparr>)
          else (False, mgr))"

text \<open>\<open>disconnect_device\<close>: the entry is deleted when the driver's \<open>disconnect\<close> returns.\<close>

definition disconnect_device :: "ble_env \<Rightarrow> DeviceManager \<Rightarrow> string \<Rightarrow> bool \<times> DeviceManager" where
  "disconnect_device env mgr dev_id =
     (case devices mgr dev_id of
        None \<Rightarrow> (False, mgr)
      | Some drv \<Rightarrow>
          (case disconnect env drv of
             Inl e \<Rightarrow> (False, mgr)
           | Inr drv' \<Rightarrow> (True, mgr\<lparr> devices := (devices mgr)(dev_id := None) \<rparr>)))"

section \<open>DeviceCalibrator (app/devices/calibration.py)\<close>

datatype CalibrationStatus =
  UNKNOWN | CALIBRATED | NEEDS_CALIBRATION | CAL_CALIBRATING | CALIBRATION_FAILED | OUT_OF_SPEC

record CalibrationRecord =
  cal_device_id :: string
  calibration_date :: datetime
  calibration_type :: string
  reference_values :: "string \<rightharpoonup> real"
  measured_values :: "string \<rightharpoonup> real"
  deviation_values :: "string \<rightharpoonup> real"
  cal_status :: CalibrationStatus
  technician_id :: "string option"
  cal_notes :: "string option"
  next_calibration_due :: "datetime option"
  certificate_number :: "string option"

record DeviceCalibrator =
  calibration_records :: "string \<rightharpoonup> CalibrationRecord list"

text \<open>\<open>timedelta(days=n)\<close> in microseconds; \<open>.days\<close> of a difference is its floor.\<close>

definition timedelta_days :: "int \<Rightarrow> int" where
  "timedelta_days n = n * 86400000000"

definition days_of :: "int \<Rightarrow> int" where
  "days_of delta = delta div 86400000000"

definition calibration_intervals :: "DeviceType \<rightharpoonup> int" where
  "calibration_intervals =
     [BLOOD_PRESSURE \<mapsto> 365, PULSE_OXIMETER \<mapsto> 180, THERMOMETER \<mapsto> 90,
      WEIGHT_SCALE \<mapsto> 180, GLUCOSE_METER \<mapsto> 90]"

definition deviation_thresholds :: "DeviceType \<Rightarrow> string \<rightharpoonup> real" where
  "deviation_thresholds dt =
     (case dt of
        BLOOD_PRESSURE \<Rightarrow> [''systolic'' \<mapsto> 3, ''diastolic'' \<mapsto> 3]
      | PULSE_OXIMETER \<Rightarrow> [''spo2'' \<mapsto> 2, ''pulse_rate'' \<mapsto> 3]
      | THERMOMETER \<Rightarrow> [''temperature'' \<mapsto> 0.1]
      | WEIGHT_SCALE \<Rightarrow> [''weight'' \<mapsto> 0.1]
      | _ \<Rightarrow> Map.empty)"

text \<open>
  \<open>max(records, key=lambda r: r.calibration_date)\<close> on a non-empty list: the first
  record whose date no later record exceeds (a later one replaces the candidate only
  when its date is strictly greater).
\<close>

fun max_by_date :: "CalibrationRecord \<Rightarrow> CalibrationRecord list \<Rightarrow> CalibrationRecord" where
  "max_by_date best [] = best"
| "max_by_date best (r # rs) =
     max_by_date (if calibration_date r > calibration_date best then r else best) rs"

text \<open>\<open>check_calibration_status\<close>; \<open>now\<close> is its \<open>datetime.utcnow()\<close>.\<close>

definition check_calibration_status ::
  "DeviceCalibrator \<Rightarrow> DeviceManager \<Rightarrow> datetime \<Rightarrow> string \<Rightarrow> CalibrationStatus" where
  "check_calibration_status cal mgr now dev_id =
     (case calibration_records cal dev_id of
        None \<Rightarrow> UNKNOWN
      | Some records \<Rightarrow>
          (case records of
             [] \<Rightarrow> NEEDS_CALIBRATION
           | r # rs \<Rightarrow>
               let latest_record = max_by_date r rs
               in (case devices mgr dev_id of
                     None \<Rightarrow> UNKNOWN
                   | Some device \<Rightarrow>
                       let interval_days =
                             (case calibration_intervals (device_type (device_info device)) of
                                None \<Rightarrow> 180 | Some d \<Rightarrow> d);
                           days_since_calibration =
                             days_of (now - calibration_date latest_record)
                       in if days_since_calibration > interval_days
                          then NEEDS_CALIBRATION
                          else cal_status latest_record)))"

text \<open>
  What one \<open>await device.read_data()\<close> of a calibration run does: it raises, or it
  returns a reading or \<open>None\<close>. The device table holds any \<open>DeviceDriver\<close>, so the
  outcomes of the successive calls are an input of the run.
\<close>

datatype read_outcome = ReadRaises py_exception | ReadReturns "DeviceReading option"

text \<open>
  The inputs of one calibration run: the outcome of the i-th \<open>read_data()\<close> call, the
  clock when \<open>calibration_date\<close> is evaluated, and the clock when
  \<open>next_calibration_due\<close> is evaluated (a second \<open>utcnow()\<close> call, later in the same
  constructor expression; the error record makes the first call only).
\<close>

record calibration_env =
  read_outcomes :: "nat \<Rightarrow> read_outcome"
  utcnow_date :: datetime
  utcnow_due :: datetime

definition has_fields :: "string list \<Rightarrow> DeviceReading \<Rightarrow> bool" where
  "has_fields required reading = list_all (\<lambda>f. reading_values reading f \<noteq> None) required"

text \<open>
  The sampling loop over the outcomes of the successive calls: a reading is kept when
  it is not \<open>None\<close> and has every required field; a call that raises ends the loop.
\<close>

fun collect_readings ::
  "string list \<Rightarrow> read_outcome list \<Rightarrow> DeviceReading list \<Rightarrow> py_exception + DeviceReading list" where
  "collect_readings required [] readings = Inr readings"
| "collect_readings required (ReadRaises e # outs) readings = Inl e"
| "collect_readings required (ReadReturns None # outs) readings =
     collect_readings required outs readings"
| "collect_readings required (ReadReturns (Some reading) # outs) readings =
     collect_readings required outs
       (if has_fields required reading then readings @ [reading] else readings)"

text \<open>
  \<open>sum(r.values[f] for r in readings)\<close>: the accumulator starts as the int 0 and
  takes the values from the left, each addition rounded when a float takes part (the
  plain loop of CPython up to 3.11; later versions compensate the rounding of a float
  sum). A value that is not a number raises TypeError there.
\<close>

fun sum_field :: "string \<Rightarrow> pynum \<Rightarrow> DeviceReading list \<Rightarrow> py_exception + pynum" where
  "sum_field f acc [] = Inr acc"
| "sum_field f acc (r # rs) =
     (case reading_values r f of
        Some (PyNum x) \<Rightarrow> sum_field f (py_add acc x) rs
      | Some (PyStr s) \<Rightarrow> Inl (add_type_error acc ''str'')
      | Some PyNone \<Rightarrow> Inl (add_type_error acc ''NoneType'')
      | None \<Rightarrow> Inl (PyExc KeyError (py_quote f)))"

text \<open>
  The \<open>try\<close> body shared by \<open>calibrate_blood_pressure_monitor\<close> and
  \<open>calibrate_pulse_oximeter\<close>, which differ in the device type \<open>dt\<close>, the two field
  names, the number of reads and the minimum of kept readings.
\<close>

definition calibration_try ::
  "DeviceType \<Rightarrow> string \<Rightarrow> string \<Rightarrow> nat \<Rightarrow> nat \<Rightarrow> calibration_env \<Rightarrow> string \<Rightarrow> real \<Rightarrow> real
     \<Rightarrow> py_exception + CalibrationRecord" where
  "calibration_try dt f1 f2 n_reads min_reads env dev_id reference1 reference2 =
     (case collect_readings [f1, f2] (map (read_outcomes env) [0..<n_reads]) [] of
        Inl e \<Rightarrow> Inl e
      | Inr readings \<Rightarrow>
          if length readings < min_reads
          then Inl (PyExc ExceptionK ''Insufficient readings for calibration'')
          else
            (case sum_field f1 (PyInt 0) readings of Inl e \<Rightarrow> Inl e | Inr sum1 \<Rightarrow>
            (case sum_field f2 (PyInt 0) readings of Inl e \<Rightarrow> Inl e | Inr sum2 \<Rightarrow>
            (case (deviation_thresholds dt f1, deviation_thresholds dt f2, calibration_intervals dt) of
               (Some threshold1, Some threshold2, Some interval) \<Rightarrow>
                 let avg1 = py_truediv sum1 (length readings);
                     avg2 = py_truediv sum2 (length readings);
                     deviation1 = \<bar>float_sub avg1 reference1\<bar>;
                     deviation2 = \<bar>float_sub avg2 reference2\<bar>;
                     status = (if deviation1 > threshold1 \<or> deviation2 > threshold2
                               then OUT_OF_SPEC else CALIBRATED)
                 in Inr \<lparr> cal_device_id = dev_id,
                          calibration_date = utcnow_date env,
                          calibration_type = ''user'',
                          reference_values = [f1 \<mapsto> reference1, f2 \<mapsto> reference2],
                          measured_values = [f1 \<mapsto> avg1, f2 \<mapsto> avg2],
                          deviation_values = [f1 \<mapsto> deviation1, f2 \<mapsto> deviation2],
                          cal_status = status,
                          technician_id = None,
                          cal_notes = None,
                          next_calibration_due = Some (utcnow_due env + timedelta_days interval),
                          certificate_number = None \<rparr>
             | _ \<Rightarrow> Inl (PyExc KeyError ''threshold or interval'')))))"

text \<open>The record of the \<open>except\<close> branch.\<close>

definition error_record ::
  "string \<Rightarrow> string \<Rightarrow> calibration_env \<Rightarrow> string \<Rightarrow> real \<Rightarrow> real \<Rightarrow> py_exception \<Rightarrow> CalibrationRecord" where
  "error_record f1 f2 env dev_id reference1 reference2 e =
     \<lparr> cal_device_id = dev_id,
       calibration_date = utcnow_date env,
       calibration_type = ''user'',
       reference_values = [f1 \<mapsto> reference1, f2 \<mapsto> reference2],
       measured_values = Map.empty,
       deviation_values = Map.empty,
       cal_status = CALIBRATION_FAILED,
       technician_id = None,
       cal_notes = Some (str_exc e),
       next_calibration_due = None,
       certificate_number = None \<rparr>"

text \<open>
  \<open>if device_id not in self.calibration_records: ... = []\<close> followed by \<open>append\<close>.
\<close>

definition store_record :: "DeviceCalibrator \<Rightarrow> string \<Rightarrow> CalibrationRecord \<Rightarrow> DeviceCalibrator" where
  "store_record cal dev_id record =
     cal\<lparr> calibration_records := (calibration_records cal)
            (dev_id \<mapsto> (case calibration_records cal dev_id of None \<Rightarrow> [] | Some rs \<Rightarrow> rs) @ [record]) \<rparr>"

text \<open>
  A whole calibration call: the device check raises ValueError before the \<open>try\<close>;
  after it, the record of the \<open>try\<close> body or of the \<open>except\<close> branch is stored
  and returned.
\<close>

definition run_calibration ::
  "DeviceType \<Rightarrow> string \<Rightarrow> string \<Rightarrow> string \<Rightarrow> nat \<Rightarrow> nat \<Rightarrow> DeviceCalibrator \<Rightarrow> DeviceManager
     \<Rightarrow> calibration_env \<Rightarrow> string \<Rightarrow> real \<Rightarrow> real
     \<Rightarrow> (py_exception + CalibrationRecord) \<times> DeviceCalibrator" where
  "run_calibration dt f1 f2 invalid_msg n_reads min_reads cal mgr env dev_id reference1 reference2 =
     (case devices mgr dev_id of
        None \<Rightarrow> (Inl (PyExc ValueError invalid_msg), cal)
      | Some device \<Rightarrow>
          if device_type (device_info device) \<noteq> dt
          then (Inl (PyExc ValueError invalid_msg), cal)
          else
            (case calibration_try dt f1 f2 n_reads min_reads env dev_id reference1 reference2 of
               Inr record \<Rightarrow> (Inr record, store_record cal dev_id record)
             | Inl e \<Rightarrow>
                 let failed = error_record f1 f2 env dev_id reference1 reference2 e
                 in (Inr failed, store_record cal dev_id failed)))"

definition calibrate_blood_pressure_monitor ::
  "DeviceCalibrator \<Rightarrow> DeviceManager \<Rightarrow> calibration_env \<Rightarrow> string \<Rightarrow> real \<Rightarrow> real
     \<Rightarrow> (py_exception + CalibrationRecord) \<times> DeviceCalibrator" where
  "calibrate_blood_pressure_monitor cal mgr env dev_id reference_systolic reference_diastolic =
     run_calibration BLOOD_PRESSURE ''systolic'' ''diastolic'' ''Invalid blood pressure device''
       5 3 cal mgr env dev_id reference_systolic reference_diastolic"

definition calibrate_pulse_oximeter ::
  "DeviceCalibrator \<Rightarrow> DeviceManager \<Rightarrow> calibration_env \<Rightarrow> string \<Rightarrow> real \<Rightarrow> real
     \<Rightarrow> (py_exception + CalibrationRecord) \<times> DeviceCalibrator" where
  "calibrate_pulse_oximeter cal mgr env dev_id reference_spo2 reference_pulse =
     run_calibration PULSE_OXIMETER ''spo2'' ''pulse_rate'' ''Invalid pulse oximeter device''
       10 5 cal mgr env dev_id reference_spo2 reference_pulse"

definition get_calibration_history :: "DeviceCalibrator \<Rightarrow> string \<Rightarrow> CalibrationRecord list" where
  "get_calibration_history cal dev_id =
     (case calibration_records cal dev_id of None \<Rightarrow> [] | Some rs \<Rightarrow> rs)"

text \<open>
  Vocabulary for statements about a run: an outcome that the sampling loop keeps, an
  outcome that raises, and the device check both calibration functions start with.
\<close>

definition kept_reading :: "string list \<Rightarrow> read_outcome \<Rightarrow> bool" where
  "kept_reading required out =
     (case out of ReadReturns (Some reading) \<Rightarrow> has_fields required reading | _ \<Rightarrow> False)"

definition read_raises :: "read_outcome \<Rightarrow> bool" where
  "read_raises out = (case out of ReadRaises e \<Rightarrow> True | _ \<Rightarrow> False)"

definition valid_device :: "DeviceManager \<Rightarrow> string \<Rightarrow> DeviceType \<Rightarrow> bool" where
  "valid_device mgr dev_id dt =
     (case devices mgr dev_id of None \<Rightarrow> False
      | Some device \<Rightarrow> device_type (device_info device) = dt)"

text \<open>
  The outcome that a driver of the repository gives to \<open>await device.read_data()\<close>.
\<close>

definition driver_read_outcome :: "DeviceDriver \<Rightarrow> read_outcome" where
  "driver_read_outcome drv =
     (case read_data drv of
        Inl e \<Rightarrow> ReadRaises e
      | Inr (reading, drv') \<Rightarrow> ReadReturns reading)"

section \<open>DeviceHealthMonitor (app/devices/calibration.py)\<close>

datatype HealthStatus = HEALTHY | WARNING | CRITICAL | OFFLINE | MAINTENANCE_REQUIRED

record HealthMetrics =
  metrics_device_id :: string
  metrics_timestamp :: datetime
  metrics_battery_level :: "int option"
  signal_strength :: "int option"
  measurement_count :: int
  error_count :: int
  last_error :: "string option"
  temperature :: "real option"
  humidity :: "real option"
  uptime :: "int option"
  metrics_firmware_version :: "string option"
  metrics_quality_score :: real

text \<open>
  Where a \<open>_monitoring_loop\<close> task stands: about to test \<open>while self.monitoring_active\<close>,
  inside one of its \<open>asyncio.sleep(60)\<close> calls, or returned.
\<close>

datatype loop_pc = AtWhileTest | InSleep | LoopReturned

text \<open>
  The monitor's fields, and the \<open>_monitoring_loop\<close> tasks that \<open>asyncio.create_task\<close>
  has handed to the event loop, in creation order.
\<close>

record DeviceHealthMonitor =
  health_metrics :: "string \<rightharpoonup> HealthMetrics list"
  monitoring_active :: bool
  loop_tasks :: "loop_pc list"

text \<open>\<open>DeviceHealthMonitor.__init__\<close>, before any task exists.\<close>

definition new_monitor :: DeviceHealthMonitor where
  "new_monitor = \<lparr> health_metrics = Map.empty, monitoring_active = False, loop_tasks = [] \<rparr>"




text \<open>The score \<open>_check_device_health\<close> derives from the connection state.\<close>

definition status_quality_score :: "DeviceStatus \<Rightarrow> real" where
  "status_quality_score st =
     (if st = ERROR then 0.0
      else if st = DISCONNECTED then 0.0
      else if st = CONNECTED then 0.8
      else 0.6)"

text \<open>
  The optional battery query: no driver class of the repository has
  \<open>get_battery_level\<close>; a driver that has it returns a level or raises (ignored).
\<close>

datatype battery_query = NoBatteryMethod | BatteryRaises | BatteryReturns "int option"

text \<open>The sample built by \<open>_check_device_health\<close>; \<open>now\<close> is its first \<open>utcnow()\<close>.\<close>

definition health_sample :: "string \<Rightarrow> DeviceDriver \<Rightarrow> datetime \<Rightarrow> battery_query \<Rightarrow> HealthMetrics" where
  "health_sample dev_id device now battery =
     \<lparr> metrics_device_id = dev_id,
       metrics_timestamp = now,
       metrics_battery_level = (case battery of BatteryReturns b \<Rightarrow> b | _ \<Rightarrow> None),
       signal_strength = None,
       measurement_count = 0,
       error_count = 0,
       last_error = None,
       temperature = None,
       humidity = None,
       uptime = None,
       metrics_firmware_version = None,
       metrics_quality_score = status_quality_score (status device) \<rparr>"

definition timedelta_hours :: "int \<Rightarrow> int" where
  "timedelta_hours n = n * 3600000000"

text \<open>
  \<open>_check_device_health\<close>: append the sample, then keep the samples newer than
  24 hours before \<open>now_cutoff\<close>, the second \<open>utcnow()\<close>.
\<close>

definition check_device_health ::
  "DeviceHealthMonitor \<Rightarrow> string \<Rightarrow> DeviceDriver \<Rightarrow> datetime \<Rightarrow> battery_query \<Rightarrow> datetime
     \<Rightarrow> DeviceHealthMonitor" where
  "check_device_health mon dev_id device now battery now_cutoff =
     (let metrics = health_sample dev_id device now battery;
          stored = (case health_metrics mon dev_id of None \<Rightarrow> [] | Some ms \<Rightarrow> ms) @ [metrics];
          cutoff_time = now_cutoff - timedelta_hours 24
      in mon\<lparr> health_metrics := (health_metrics mon)
                (dev_id \<mapsto> filter (\<lambda>m. metrics_timestamp m > cutoff_time) stored) \<rparr>)"

text \<open>
  One pass of the \<open>for\<close> loop of \<open>_monitoring_loop\<close> over the manager's devices, each
  with the clock readings and battery outcome of its check.
\<close>

fun monitoring_tick ::
  "(string \<times> DeviceDriver \<times> datetime \<times> battery_query \<times> datetime) list \<Rightarrow> DeviceHealthMonitor
     \<Rightarrow> DeviceHealthMonitor" where
  "monitoring_tick [] mon = mon"
| "monitoring_tick ((dev_id, device, now, battery, now_cutoff) # items) mon =
     monitoring_tick items (check_device_health mon dev_id device now battery now_cutoff)"

text \<open>
  The event loop resumes task \<open>i\<close>: at the \<open>while\<close> test it returns if the flag is
  off, else it runs one tick and goes to sleep; from a sleep it comes back to the test.
\<close>

definition resume_loop ::
  "(string \<times> DeviceDriver \<times> datetime \<times> battery_query \<times> datetime) list \<Rightarrow> nat
     \<Rightarrow> DeviceHealthMonitor \<Rightarrow> DeviceHealthMonitor" where
  "resume_loop items i mon =
     (if i < length (loop_tasks mon) then
        (case loop_tasks mon ! i of
           AtWhileTest \<Rightarrow>
             if monitoring_active mon
             then (monitoring_tick items mon)\<lparr> loop_tasks := (loop_tasks mon)[i := InSleep] \<rparr>
             else mon\<lparr> loop_tasks := (loop_tasks mon)[i := LoopReturned] \<rparr>
         | InSleep \<Rightarrow> mon\<lparr> loop_tasks := (loop_tasks mon)[i := AtWhileTest] \<rparr>
         | LoopReturned \<Rightarrow> mon)
      else mon)"


definition get_device_health :: "DeviceHealthMonitor \<Rightarrow> string \<Rightarrow> HealthStatus" where
  "get_device_health mon dev_id =
     (case health_metrics mon dev_id of
        None \<Rightarrow> OFFLINE
      | Some recent_metrics \<Rightarrow>
          if recent_metrics = [] then OFFLINE
          else
            let latest_metric = last recent_metrics
            in if metrics_quality_score latest_metric \<ge> 0.8 then HEALTHY
               else if metrics_quality_score latest_metric \<ge> 0.6 then WARNING
               else CRITICAL)"

section \<open>Concrete inputs\<close>

definition info_bp :: DeviceInfo where
  "info_bp =
     \<lparr> device_id = ''bp-1'', name = ''Omron M7'', manufacturer = ''Omron'', model = ''Omron M7'',
       device_type = BLOOD_PRESSURE, mac_address = ''AA:BB:CC:DD:EE:01'', rssi = -60,
       battery_level = None, firmware_version = None, last_seen = Some 0,
       is_paired = False, calibration_status = ''unknown'' \<rparr>"

definition env_ble_ok :: ble_env where
  "env_ble_ok = \<lparr> BLE_AVAILABLE = True, connect_outcome = Returns, start_notify_outcome = Returns,
      stop_notify_outcome = Returns, disconnect_outcome = Returns \<rparr>"

definition mgr_empty :: DeviceManager where
  "mgr_empty = \<lparr> devices = Map.empty \<rparr>"

definition mgr_bp :: DeviceManager where
  "mgr_bp = snd (connect_device env_ble_ok mgr_empty info_bp)"

definition reading_123_80 :: DeviceReading where
  "reading_123_80 = bp_reading info_bp 0 [0x00, 123, 0, 80, 0, 93, 0] 0 123 80 93 None"

definition cal_empty :: DeviceCalibrator where
  "cal_empty = \<lparr> calibration_records = Map.empty \<rparr>"

definition cal_env_five :: calibration_env where
  "cal_env_five = \<lparr> read_outcomes = (\<lambda>i. ReadReturns (Some reading_123_80)),
      utcnow_date = 1000000, utcnow_due = 1000001 \<rparr>"

definition cal_env_two :: calibration_env where
  "cal_env_two = \<lparr> read_outcomes = (\<lambda>i. if i < 2 then ReadReturns (Some reading_123_80)
                                             else ReadReturns None),
      utcnow_date = 1000000, utcnow_due = 1000001 \<rparr>"

definition record_five :: CalibrationRecord where
  "record_five =
     \<lparr> cal_device_id = ''bp-1'', calibration_date = 1000000, calibration_type = ''user'',
       reference_values = [''systolic'' \<mapsto> 120, ''diastolic'' \<mapsto> 80],
       measured_values = [''systolic'' \<mapsto> 123, ''diastolic'' \<mapsto> 80],
       deviation_values = [''systolic'' \<mapsto> 3, ''diastolic'' \<mapsto> 0],
       cal_status = CALIBRATED, technician_id = None, cal_notes = None,
       next_calibration_due = Some (1000001 + timedelta_days 365),
       certificate_number = None \<rparr>"

definition record_two :: CalibrationRecord where
  "record_two =
     error_record ''systolic'' ''diastolic'' cal_env_two ''bp-1'' 120 80
       (PyExc ExceptionK ''Insufficient readings for calibration'')"

definition cal_five :: DeviceCalibrator where
  "cal_five = store_record cal_empty ''bp-1'' record_five"

definition mgr_after_disconnect :: DeviceManager where
  "mgr_after_disconnect = snd (disconnect_device env_ble_ok mgr_bp ''bp-1'')"

definition env_connect_fails :: ble_env where
  "env_connect_fails = env_ble_ok\<lparr> connect_outcome := Raises (PyExc BleakError ''device not found'') \<rparr>"

definition driver_bp_connected :: DeviceDriver where
  "driver_bp_connected = snd (ble_connect env_ble_ok (create_driver info_bp))"

definition driver_bp_failed :: DeviceDriver where
  "driver_bp_failed = snd (ble_connect env_connect_fails (create_driver info_bp))"

definition info_scale :: DeviceInfo where
  "info_scale = info_bp\<lparr> device_id := ''scale-1'', name := ''Withings Body'',
      device_type := WEIGHT_SCALE \<rparr>"

text \<open>
  The double written \<open>12.83\<close>, a reading that carries it, and a run of five such
  readings; the reference \<open>v_12_83 - 3\<close> is a double as well.
\<close>

definition v_12_83 :: real where
  "v_12_83 = 7222647902395433 / 562949953421312"

definition reading_12_83 :: DeviceReading where
  "reading_12_83 =
     \<lparr> reading_device_id = ''bp-1'', reading_device_type = BLOOD_PRESSURE, timestamp = 0,
       reading_values = [''systolic'' \<mapsto> PyNum (PyFloat v_12_83), ''diastolic'' \<mapsto> PyNum (PyInt 80)],
       unit = ''kPa'', quality_score = 0.3, metadata = Map.empty \<rparr>"

definition cal_env_12_83 :: calibration_env where
  "cal_env_12_83 = \<lparr> read_outcomes = (\<lambda>i. ReadReturns (Some reading_12_83)),
      utcnow_date = 1000000, utcnow_due = 1000001 \<rparr>"

definition record_12_83 :: CalibrationRecord where
  "record_12_83 =
     \<lparr> cal_device_id = ''bp-1'', calibration_date = 1000000, calibration_type = ''user'',
       reference_values = [''systolic'' \<mapsto> v_12_83 - 3, ''diastolic'' \<mapsto> 80],
       measured_values = [''systolic'' \<mapsto> 3611323951197717 / 281474976710656, ''diastolic'' \<mapsto> 80],
       deviation_values = [''systolic'' \<mapsto> 1688849860263937 / 562949953421312, ''diastolic'' \<mapsto> 0],
       cal_status = OUT_OF_SPEC, technician_id = None, cal_notes = None,
       next_calibration_due = Some (1000001 + timedelta_days 365),
       certificate_number = None \<rparr>"

section \<open>Rounding to a double\<close>

lemma double_exponent_from_eq:
  "-1022 \<le> e \<Longrightarrow> e \<le> start \<Longrightarrow> 2 powi e \<le> x \<Longrightarrow> x < 2 powi (e + 1) \<Longrightarrow>
   double_exponent_from start x = e"
proof (induction start x rule: double_exponent_from.induct)
  case (1 s x)
  show ?case
  proof (cases "s = e")
    case True
    with 1 show ?thesis by (simp add: double_exponent_from.simps)
  next
    case False
    with 1 have lt: "e + 1 \<le> s" by simp
    have "(2::real) powi (e + 1) \<le> 2 powi s"
      using lt by (intro power_int_increasing) auto
    with 1 have nle: "\<not> 2 powi s \<le> x" by linarith
    from lt 1 have nb: "\<not> s \<le> -1022" by simp
    from 1(1)[OF _ 1(2)] nle nb lt 1 have "double_exponent_from (s - 1) x = e" by simp
    with nle nb show ?thesis by (subst double_exponent_from.simps) simp
  qed
qed

text \<open>Within the binade of exponent \<open>e\<close> the unit in the last place is \<open>2 ^ (e - 52)\<close>.\<close>

lemma round_double_binade:
  assumes "2 powi e \<le> \<bar>x\<bar>" "\<bar>x\<bar> < 2 powi (e + 1)" "-1022 \<le> e" "e \<le> 1023"
  shows "round_double x = of_int (round_half_even (x / 2 powi (e - 52))) * 2 powi (e - 52)"
proof -
  have "0 < (2::real) powi e" by (rule zero_less_power_int) simp
  with assms(1) have "0 < \<bar>x\<bar>" by linarith
  then have "x \<noteq> 0" by simp
  moreover have "double_exponent_from 1023 \<bar>x\<bar> = e"
    using assms by (intro double_exponent_from_eq) auto
  ultimately show ?thesis by (simp add: round_double_def Let_def)
qed

lemma round_double_zero: "round_double 0 = 0"
  by (simp add: round_double_def)

lemma round_double_small_ints:
  "round_double 3 = 3" "round_double 16 = 16" "round_double 80 = 80" "round_double 123 = 123"
  by (subst round_double_binade[of 1], simp_all add: round_half_even_def power_int_minus)
     (subst round_double_binade[of 4], simp_all add: round_half_even_def power_int_minus,
      subst round_double_binade[of 6], simp_all add: round_half_even_def power_int_minus,
      subst round_double_binade[of 6], simp_all add: round_half_even_def power_int_minus)

section \<open>The blood-pressure codec\<close>

lemma bp_parse_Inr:
  assumes "bp_parse info now data = Inr r"
  shows "\<exists>flags rest s d m p. data = flags # rest \<and>
           unpack_H (py_slice data 1 3) = Inr s \<and>
           unpack_H (py_slice data 3 5) = Inr d \<and>
           unpack_H (py_slice data 5 7) = Inr m \<and>
           bp_pulse_rate flags data = Inr p \<and>
           r = bp_reading info now data flags s d m p"
  using assms unfolding bp_parse_def
  by (auto split: list.splits sum.splits)

lemma handle_bp_Some:
  "handle_bp_measurement info now data = Some r \<longleftrightarrow> bp_parse info now data = Inr r"
  by (simp add: handle_bp_measurement_def split: sum.splits)

lemma unpack_H_fields:
  "unpack_H (py_slice (flags # s0 # s1 # d0 # d1 # m0 # m1 # rest) 1 3) = Inr (unat s0 + 256 * unat s1)"
  "unpack_H (py_slice (flags # s0 # s1 # d0 # d1 # m0 # m1 # rest) 3 5) = Inr (unat d0 + 256 * unat d1)"
  "unpack_H (py_slice (flags # s0 # s1 # d0 # d1 # m0 # m1 # rest) 5 7) = Inr (unat m0 + 256 * unat m1)"
  by (simp_all add: py_slice_def unpack_H_def)


lemma bp_pulse_rate_absent:
  "flags AND 0x04 = 0 \<Longrightarrow> bp_pulse_rate flags data = Inr None"
  by (simp add: bp_pulse_rate_def)

lemma unpack_H_Inr_iff: "(\<exists>n. unpack_H bs = Inr n) \<longleftrightarrow> length bs = 2"
  by (auto simp: unpack_H_def split: list.splits)

lemma length_py_slice: "i \<le> j \<Longrightarrow> length (py_slice xs i j) = min (j - i) (length xs - i)"
  by (simp add: py_slice_def)


lemma bp_pulse_rate_well_formed:
  "(\<exists>p. bp_pulse_rate (data ! 0) data = Inr p) \<longleftrightarrow>
     (let offset = (if data ! 0 AND 0x02 \<noteq> 0 then 14 else 7)
      in data ! 0 AND 0x04 \<noteq> 0 \<and> offset < length data \<longrightarrow> offset + 2 \<le> length data)"
proof -
  have a: "(\<exists>p. (case unpack_H bs of Inl e \<Rightarrow> Inl e | Inr p \<Rightarrow> Inr (Some p)) = (Inr p :: py_exception + nat option))
             \<longleftrightarrow> length bs = 2" for bs
    using unpack_H_Inr_iff[of bs] by (auto split: sum.splits)
  show ?thesis
    unfolding bp_pulse_rate_def Let_def
    by (auto simp: a length_py_slice min_def)
qed

text \<open>A seven-byte payload without the pulse-rate flag always decodes.\<close>

lemma handle_bp_seven_bytes:
  "flags AND 0x04 = 0 \<Longrightarrow>
   handle_bp_measurement info now [flags, s0, s1, d0, d1, m0, m1] =
     Some (bp_reading info now [flags, s0, s1, d0, d1, m0, m1] flags
             (unat s0 + 256 * unat s1) (unat d0 + 256 * unat d1) (unat m0 + 256 * unat m1) None)"
  unfolding handle_bp_measurement_def bp_parse_def
  by (simp only: list.case unpack_H_fields sum.case bp_pulse_rate_absent)


lemma handle_bp_malformed:
  assumes "\<not> bp_well_formed data"
  shows "handle_bp_measurement info now data = None"
proof (rule ccontr)
  assume "handle_bp_measurement info now data \<noteq> None"
  then obtain r where "bp_parse info now data = Inr r"
    by (auto simp: handle_bp_Some)
  from bp_parse_Inr[OF this] obtain flags rest m p where
    d: "data = flags # rest" and m: "unpack_H (py_slice data 5 7) = Inr m"
    and p: "bp_pulse_rate flags data = Inr p" by blast
  from m have "length (py_slice data 5 7) = 2" using unpack_H_Inr_iff by blast
  then have "7 \<le> length data" by (simp add: length_py_slice min_def split: if_splits)
  moreover from d p have "\<exists>p. bp_pulse_rate (data ! 0) data = Inr p" by auto
  ultimately have "bp_well_formed data"
    using bp_pulse_rate_well_formed[of data] by (simp add: bp_well_formed_def)
  with assms show False by simp
qed




text \<open>
  The rounding is part of the decoded values: the kPa payload with raw systolic 50001
  and raw diastolic 30001 has the exact quotients 50.001 and 30.001, which are 20
  apart, but the doubles differ by less than 20 and the score is 0.6.
\<close>

lemma round_double_kpa_50001:
  "round_double (50001 / 1000) = 7037015155254755 / 140737488355328"
  "round_double (30001 / 1000) = 8444530776296391 / 281474976710656"
  "round_double (5629499534213119 / 281474976710656) = 5629499534213119 / 281474976710656"
  by (subst round_double_binade[of 5], simp_all add: round_half_even_def power_int_minus Let_def)
     (subst round_double_binade[of 4], simp_all add: round_half_even_def power_int_minus Let_def,
      subst round_double_binade[of 4], simp_all add: round_half_even_def power_int_minus Let_def)

lemma bp_kpa_rounding_example:
  "handle_bp_measurement info_bp 0 [0x01, 0x51, 0xC3, 0x31, 0x75, 0x40, 0x9C] =
     Some (bp_reading info_bp 0 [0x01, 0x51, 0xC3, 0x31, 0x75, 0x40, 0x9C] 1 50001 30001 40000 None)"
  "quality_score (bp_reading info_bp 0 [0x01, 0x51, 0xC3, 0x31, 0x75, 0x40, 0x9C] 1 50001 30001 40000 None)
     = 0.6"
proof -
  show "handle_bp_measurement info_bp 0 [0x01, 0x51, 0xC3, 0x31, 0x75, 0x40, 0x9C] =
     Some (bp_reading info_bp 0 [0x01, 0x51, 0xC3, 0x31, 0x75, 0x40, 0x9C] 1 50001 30001 40000 None)"
    using handle_bp_seven_bytes[of 1 info_bp 0 "0x51" "0xC3" "0x31" "0x75" "0x40" "0x9C"] by simp
  show "quality_score (bp_reading info_bp 0 [0x01, 0x51, 0xC3, 0x31, 0x75, 0x40, 0x9C] 1 50001 30001 40000 None)
     = 0.6"
    by (simp add: bp_reading_def bp_scale_def calculate_quality_score_def py_sub_def float_sub_def
        to_float_def num_val_def round_double_kpa_50001 Let_def)
qed

text \<open>
  Claim C5. A decoded payload whose flags have bit 0 set (kPa) carries the little-endian
  16-bit systolic, diastolic and mean-pressure values divided by 1000.0, as floats,
  with unit kPa; in particular the raw value 16000 becomes 16.0. With bit 0 clear
  (mmHg) the raw integers are used as they are.
\<close>

theorem bp_kpa_scaling:
  assumes "handle_bp_measurement info now (flags # s0 # s1 # d0 # d1 # m0 # m1 # rest) = Some r"
  shows "(flags AND 0x01 \<noteq> 0 \<longrightarrow>
            reading_values r ''systolic'' =
              Some (PyNum (PyFloat (round_double (real (unat s0 + 256 * unat s1) / 1000)))) \<and>
            reading_values r ''diastolic'' =
              Some (PyNum (PyFloat (round_double (real (unat d0 + 256 * unat d1) / 1000)))) \<and>
            reading_values r ''mean_pressure'' =
              Some (PyNum (PyFloat (round_double (real (unat m0 + 256 * unat m1) / 1000)))) \<and>
            unit r = ''kPa'') \<and>
         (flags AND 0x01 \<noteq> 0 \<and> unat s0 + 256 * unat s1 = 16000 \<longrightarrow>
            reading_values r ''systolic'' = Some (PyNum (PyFloat 16))) \<and>
         (flags AND 0x01 = 0 \<longrightarrow>
            reading_values r ''systolic'' = Some (PyNum (PyInt (int (unat s0 + 256 * unat s1)))) \<and>
            reading_values r ''diastolic'' = Some (PyNum (PyInt (int (unat d0 + 256 * unat d1)))) \<and>
            reading_values r ''mean_pressure'' = Some (PyNum (PyInt (int (unat m0 + 256 * unat m1)))) \<and>
            unit r = ''mmHg'')"
proof -
  let ?data = "flags # s0 # s1 # d0 # d1 # m0 # m1 # rest"
  from assms have "bp_parse info now ?data = Inr r"
    by (simp add: handle_bp_Some)
  from bp_parse_Inr[OF this] obtain f s d m p where
    f: "f = flags" and
    s: "unpack_H (py_slice ?data 1 3) = Inr s" and
    d: "unpack_H (py_slice ?data 3 5) = Inr d" and
    m: "unpack_H (py_slice ?data 5 7) = Inr m" and
    r: "r = bp_reading info now ?data f s d m p" by auto
  from s have s': "s = unat s0 + 256 * unat s1" unfolding unpack_H_fields by simp
  from d have d': "d = unat d0 + 256 * unat d1" unfolding unpack_H_fields by simp
  from m have m': "m = unat m0 + 256 * unat m1" unfolding unpack_H_fields by simp
  have sixteen: "round_double (real 16000 / 1000) = 16"
    by (simp add: round_double_small_ints)
  show ?thesis unfolding r f s' d' m' bp_reading_def Let_def bp_scale_def
    using sixteen by auto
qed

theorem bp_kpa_scaling_witness:
  "handle_bp_measurement info_bp 0 [0x01, 0x80, 0x3E, 0xA0, 0x28, 0x10, 0x2F] =
     Some (bp_reading info_bp 0 [0x01, 0x80, 0x3E, 0xA0, 0x28, 0x10, 0x2F] 1 16000 10400 12048 None) \<and>
   reading_values (bp_reading info_bp 0 [0x01, 0x80, 0x3E, 0xA0, 0x28, 0x10, 0x2F] 1 16000 10400 12048 None)
     ''systolic'' = Some (PyNum (PyFloat 16))"
proof -
  have h: "handle_bp_measurement info_bp 0 [0x01, 0x80, 0x3E, 0xA0, 0x28, 0x10, 0x2F] =
     Some (bp_reading info_bp 0 [0x01, 0x80, 0x3E, 0xA0, 0x28, 0x10, 0x2F] 1 16000 10400 12048 None)"
    using handle_bp_seven_bytes[of 1 info_bp 0 "0x80" "0x3E" "0xA0" "0x28" "0x10" "0x2F"] by simp
  from bp_kpa_scaling[OF h] h show ?thesis
    by (simp add: round_double_small_ints)
qed

section \<open>Calibration runs\<close>

lemma collect_readings_length:
  "collect_readings required outs acc = Inr rs \<Longrightarrow>
   length rs = length acc + length (filter (kept_reading required) outs)"
proof (induction required outs acc rule: collect_readings.induct)
  case (1 required readings)
  then show ?case by simp
next
  case (2 required e outs readings)
  then show ?case by simp
next
  case (3 required outs readings)
  then show ?case by (simp add: kept_reading_def)
next
  case (4 required reading outs readings)
  then show ?case by (simp add: kept_reading_def split: if_splits)
qed

lemma collect_readings_total:
  "\<not> list_ex read_raises outs \<Longrightarrow> \<exists>rs. collect_readings required outs acc = Inr rs"
  by (induction required outs acc rule: collect_readings.induct) (simp_all add: read_raises_def)

lemma calibration_try_few:
  assumes "length (filter (kept_reading [f1, f2]) (map (read_outcomes env) [0..<n])) < k"
  shows "\<exists>e. calibration_try dt f1 f2 n k env dev_id r1 r2 = Inl e \<and>
             (\<not> list_ex read_raises (map (read_outcomes env) [0..<n]) \<longrightarrow>
                e = PyExc ExceptionK ''Insufficient readings for calibration'')"
proof (cases "collect_readings [f1, f2] (map (read_outcomes env) [0..<n]) []")
  case (Inl e)
  moreover have "list_ex read_raises (map (read_outcomes env) [0..<n])"
    using collect_readings_total[of "map (read_outcomes env) [0..<n]" "[f1, f2]" "[]"] Inl
    by auto
  ultimately show ?thesis by (simp add: calibration_try_def)
next
  case (Inr rs)
  from collect_readings_length[OF Inr] assms have "length rs < k" by simp
  with Inr show ?thesis by (simp add: calibration_try_def)
qed

text \<open>
  No driver class of the repository ever hands a reading to the sampling loop:
  \<open>BloodPressureDriver.read_data\<close> returns \<open>None\<close> and the others raise. With these
  drivers every calibration attempt that passes the device check ends in the
  \<open>except\<close> branch.
\<close>

lemma driver_read_outcome_not_kept: "\<not> kept_reading required (driver_read_outcome drv)"
  by (simp add: driver_read_outcome_def read_data_def bp_read_data_def kept_reading_def Let_def
      split: driver_class.splits)

lemma repository_drivers_never_calibrate:
  assumes "\<forall>i. \<exists>drv. read_outcomes env i = driver_read_outcome drv" and "0 < k"
  shows "\<exists>e. calibration_try dt f1 f2 n k env dev_id r1 r2 = Inl e"
proof -
  have "filter (kept_reading [f1, f2]) (map (read_outcomes env) [0..<n]) = []"
    unfolding filter_empty_conv using assms(1) driver_read_outcome_not_kept
    by (metis imageE list.set_map)
  then have "length (filter (kept_reading [f1, f2]) (map (read_outcomes env) [0..<n])) < k"
    using assms(2) by simp
  from calibration_try_few[OF this] show ?thesis by blast
qed

lemma history_store_record:
  "get_calibration_history (store_record cal dev_id record) dev_id =
     get_calibration_history cal dev_id @ [record]"
  "other \<noteq> dev_id \<Longrightarrow>
     get_calibration_history (store_record cal dev_id record) other =
     get_calibration_history cal other"
  by (simp_all add: get_calibration_history_def store_record_def)

lemma mgr_bp_device:
  "\<exists>device. devices mgr_bp ''bp-1'' = Some device \<and> device_type (device_info device) = BLOOD_PRESSURE"
  by (simp add: mgr_bp_def connect_device_def connect_def create_driver_def info_bp_def
      new_driver_def ble_connect_def env_ble_ok_def mgr_empty_def add_callback_def)

lemma valid_mgr_bp: "valid_device mgr_bp ''bp-1'' BLOOD_PRESSURE"
  using mgr_bp_device by (auto simp: valid_device_def)

lemma reading_123_80_fields:
  "has_fields [''systolic'', ''diastolic''] reading_123_80"
  "reading_values reading_123_80 ''systolic'' = Some (PyNum (PyInt 123))"
  "reading_values reading_123_80 ''diastolic'' = Some (PyNum (PyInt 80))"
  by (simp_all add: has_fields_def reading_123_80_def bp_reading_def bp_scale_def Let_def)

lemma upt_5: "[0..<5] = [0, 1, 2, 3, 4]"
  by code_simp

lemma collect_five:
  "collect_readings [''systolic'', ''diastolic''] (map (read_outcomes cal_env_five) [0..<5]) [] =
     Inr [reading_123_80, reading_123_80, reading_123_80, reading_123_80, reading_123_80]"
  by (simp add: upt_5 cal_env_five_def reading_123_80_fields)

lemma collect_two:
  "map (read_outcomes cal_env_two) [0..<5] =
     [ReadReturns (Some reading_123_80), ReadReturns (Some reading_123_80),
      ReadReturns None, ReadReturns None, ReadReturns None]"
  by (simp add: upt_5 cal_env_two_def)

lemma sum_five:
  "sum_field ''systolic'' (PyInt 0)
     [reading_123_80, reading_123_80, reading_123_80, reading_123_80, reading_123_80] = Inr (PyInt 615)"
  "sum_field ''diastolic'' (PyInt 0)
     [reading_123_80, reading_123_80, reading_123_80, reading_123_80, reading_123_80] = Inr (PyInt 400)"
  by (simp_all add: reading_123_80_fields py_add_def)

lemma try_five:
  "calibration_try BLOOD_PRESSURE ''systolic'' ''diastolic'' 5 3 cal_env_five ''bp-1'' 120 80
     = Inr record_five"
  unfolding calibration_try_def collect_five
  by (simp add: sum_five deviation_thresholds_def calibration_intervals_def Let_def
      record_five_def cal_env_five_def py_truediv_def float_sub_def num_val_def
      round_double_small_ints round_double_zero del: sum_field.simps)

lemma calibrate_five:
  "calibrate_blood_pressure_monitor cal_empty mgr_bp cal_env_five ''bp-1'' 120 80 =
     (Inr record_five, store_record cal_empty ''bp-1'' record_five)"
  using mgr_bp_device
  by (auto simp: calibrate_blood_pressure_monitor_def run_calibration_def try_five)

lemma kept_two:
  "length (filter (kept_reading [''systolic'', ''diastolic''])
                   (map (read_outcomes cal_env_two) [0..<5])) = 2"
  by (simp add: collect_two kept_reading_def reading_123_80_fields)

lemma no_raise_two: "\<not> list_ex read_raises (map (read_outcomes cal_env_two) [0..<5])"
  by (simp add: collect_two read_raises_def)

lemma calibrate_two:
  "calibrate_blood_pressure_monitor cal_empty mgr_bp cal_env_two ''bp-1'' 120 80 =
     (Inr record_two, store_record cal_empty ''bp-1'' record_two)"
proof -
  have "collect_readings [''systolic'', ''diastolic''] (map (read_outcomes cal_env_two) [0..<5]) []
          = Inr [reading_123_80, reading_123_80]"
    by (simp add: collect_two reading_123_80_fields)
  then have "calibration_try BLOOD_PRESSURE ''systolic'' ''diastolic'' 5 3 cal_env_two ''bp-1'' 120 80
     = Inl (PyExc ExceptionK ''Insufficient readings for calibration'')"
    by (simp add: calibration_try_def)
  with mgr_bp_device show ?thesis
    by (auto simp: calibrate_blood_pressure_monitor_def run_calibration_def record_two_def Let_def)
qed

lemma history_cal_empty: "get_calibration_history cal_empty dev_id = []"
  by (simp add: get_calibration_history_def cal_empty_def)

text \<open>
  Claim C2. A blood-pressure calibration run on a valid device in which fewer than 3 of
  the 5 \<open>read_data()\<close> outcomes are kept (a reading with both \<open>systolic\<close> and
  \<open>diastolic\<close>) returns a record instead of raising, the record has status
  \<open>calibration_failed\<close> (so neither \<open>calibrated\<close> nor \<open>out_of_spec\<close>) and a note,
  which is \<open>Insufficient readings for calibration\<close> when no read raised, and the
  ledger of the device afterwards is the ledger before with exactly this record
  appended.
\<close>

theorem bp_calibration_insufficient:
  assumes "devices mgr dev_id = Some device"
    and "device_type (device_info device) = BLOOD_PRESSURE"
    and "length (filter (kept_reading [''systolic'', ''diastolic''])
                   (map (read_outcomes env) [0..<5])) < 3"
  shows "\<exists>failed cal'.
           calibrate_blood_pressure_monitor cal mgr env dev_id ref_sys ref_dia = (Inr failed, cal') \<and>
           cal_status failed = CALIBRATION_FAILED \<and>
           cal_status failed \<noteq> CALIBRATED \<and> cal_status failed \<noteq> OUT_OF_SPEC \<and>
           cal_notes failed \<noteq> None \<and>
           (\<not> list_ex read_raises (map (read_outcomes env) [0..<5]) \<longrightarrow>
              cal_notes failed = Some ''Insufficient readings for calibration'') \<and>
           get_calibration_history cal' dev_id = get_calibration_history cal dev_id @ [failed]"
proof -
  from calibration_try_few[OF assms(3)] obtain e where
    e: "calibration_try BLOOD_PRESSURE ''systolic'' ''diastolic'' 5 3 env dev_id ref_sys ref_dia = Inl e"
    and msg: "\<not> list_ex read_raises (map (read_outcomes env) [0..<5]) \<longrightarrow>
                e = PyExc ExceptionK ''Insufficient readings for calibration''"
    by blast
  let ?failed = "error_record ''systolic'' ''diastolic'' env dev_id ref_sys ref_dia e"
  have run: "calibrate_blood_pressure_monitor cal mgr env dev_id ref_sys ref_dia =
          (Inr ?failed, store_record cal dev_id ?failed)"
    using assms(1,2) e
    by (simp add: calibrate_blood_pressure_monitor_def run_calibration_def Let_def)
  have st: "cal_status ?failed = CALIBRATION_FAILED" "cal_notes ?failed = Some (str_exc e)"
    by (simp_all add: error_record_def)
  from msg have "\<not> list_ex read_raises (map (read_outcomes env) [0..<5]) \<longrightarrow>
     cal_notes ?failed = Some ''Insufficient readings for calibration''"
    by (auto simp: error_record_def)
  with run st history_store_record(1)[of cal dev_id ?failed] show ?thesis
    by (intro exI[of _ ?failed] exI[of _ "store_record cal dev_id ?failed"]) simp
qed

theorem bp_calibration_insufficient_witness:
  "calibrate_blood_pressure_monitor cal_empty mgr_bp cal_env_two ''bp-1'' 120 80 =
     (Inr record_two, store_record cal_empty ''bp-1'' record_two) \<and>
   cal_status record_two = CALIBRATION_FAILED \<and>
   cal_notes record_two = Some ''Insufficient readings for calibration'' \<and>
   get_calibration_history cal_empty ''bp-1'' = [] \<and>
   get_calibration_history (store_record cal_empty ''bp-1'' record_two) ''bp-1'' = [record_two]"
proof -
  from mgr_bp_device obtain device where
    d: "devices mgr_bp ''bp-1'' = Some device" "device_type (device_info device) = BLOOD_PRESSURE"
    by blast
  have few: "length (filter (kept_reading [''systolic'', ''diastolic''])
                   (map (read_outcomes cal_env_two) [0..<5])) < 3"
    unfolding kept_two by simp
  from bp_calibration_insufficient[OF d few, of cal_empty 120 80] no_raise_two
  obtain failed cal' where
    run: "calibrate_blood_pressure_monitor cal_empty mgr_bp cal_env_two ''bp-1'' 120 80 = (Inr failed, cal')"
    and st: "cal_status failed = CALIBRATION_FAILED"
    and nt: "cal_notes failed = Some ''Insufficient readings for calibration''"
    and h: "get_calibration_history cal' ''bp-1'' = get_calibration_history cal_empty ''bp-1'' @ [failed]"
    by blast
  from run have eq: "failed = record_two" "cal' = store_record cal_empty ''bp-1'' record_two"
    by (simp_all add: calibrate_two)
  from st nt h show ?thesis unfolding eq
    by (simp add: calibrate_two history_cal_empty)
qed

lemma calibration_try_Inr:
  assumes "calibration_try dt f1 f2 n k env dev_id r1 r2 = Inr rec"
  shows "\<exists>readings sum1 sum2 t1 t2 iv.
           collect_readings [f1, f2] (map (read_outcomes env) [0..<n]) [] = Inr readings \<and>
           k \<le> length readings \<and>
           sum_field f1 (PyInt 0) readings = Inr sum1 \<and>
           sum_field f2 (PyInt 0) readings = Inr sum2 \<and>
           deviation_thresholds dt f1 = Some t1 \<and>
           deviation_thresholds dt f2 = Some t2 \<and>
           calibration_intervals dt = Some iv \<and>
           rec = \<lparr> cal_device_id = dev_id,
                   calibration_date = utcnow_date env,
                   calibration_type = ''user'',
                   reference_values = [f1 \<mapsto> r1, f2 \<mapsto> r2],
                   measured_values = [f1 \<mapsto> py_truediv sum1 (length readings),
                                      f2 \<mapsto> py_truediv sum2 (length readings)],
                   deviation_values =
                     [f1 \<mapsto> \<bar>float_sub (py_truediv sum1 (length readings)) r1\<bar>,
                      f2 \<mapsto> \<bar>float_sub (py_truediv sum2 (length readings)) r2\<bar>],
                   cal_status = (if \<bar>float_sub (py_truediv sum1 (length readings)) r1\<bar> > t1 \<or>
                                    \<bar>float_sub (py_truediv sum2 (length readings)) r2\<bar> > t2
                                 then OUT_OF_SPEC else CALIBRATED),
                   technician_id = None,
                   cal_notes = None,
                   next_calibration_due = Some (utcnow_due env + timedelta_days iv),
                   certificate_number = None \<rparr>"
  using assms unfolding calibration_try_def Let_def
  by (auto split: sum.splits if_splits option.splits)




lemma run_calibration_invalid:
  "\<not> valid_device mgr dev_id dt \<Longrightarrow>
   run_calibration dt f1 f2 msg n k cal mgr env dev_id r1 r2 = (Inl (PyExc ValueError msg), cal)"
  by (auto simp: valid_device_def run_calibration_def split: option.splits)

lemma store_record_other:
  "other \<noteq> dev_id \<Longrightarrow>
   calibration_records (store_record cal dev_id record) other = calibration_records cal other"
  by (simp add: store_record_def)

lemma run_calibration_append:
  assumes v: "valid_device mgr dev_id dt" and iv: "calibration_intervals dt = Some iv"
  shows "\<exists>rec cal'.
           run_calibration dt f1 f2 msg n k cal mgr env dev_id r1 r2 = (Inr rec, cal') \<and>
           get_calibration_history cal' dev_id = get_calibration_history cal dev_id @ [rec] \<and>
           (\<forall>other. other \<noteq> dev_id \<longrightarrow>
              calibration_records cal' other = calibration_records cal other) \<and>
           calibration_date rec = utcnow_date env \<and>
           (cal_status rec \<noteq> CALIBRATION_FAILED \<longrightarrow>
              next_calibration_due rec = Some (utcnow_due env + timedelta_days iv) \<and>
              (next_calibration_due rec = Some (calibration_date rec + timedelta_days iv) \<longleftrightarrow>
                 utcnow_due env = utcnow_date env))"
proof (cases "calibration_try dt f1 f2 n k env dev_id r1 r2")
  case (Inl e)
  let ?rec = "error_record f1 f2 env dev_id r1 r2 e"
  from v Inl have "run_calibration dt f1 f2 msg n k cal mgr env dev_id r1 r2 =
      (Inr ?rec, store_record cal dev_id ?rec)"
    by (auto simp: valid_device_def run_calibration_def Let_def split: option.splits)
  moreover have "calibration_date ?rec = utcnow_date env" "cal_status ?rec = CALIBRATION_FAILED"
    by (simp_all add: error_record_def)
  ultimately show ?thesis
    by (simp add: history_store_record(1) store_record_other)
next
  case (Inr rec)
  from v Inr have "run_calibration dt f1 f2 msg n k cal mgr env dev_id r1 r2 =
      (Inr rec, store_record cal dev_id rec)"
    by (auto simp: valid_device_def run_calibration_def Let_def split: option.splits)
  moreover from calibration_try_Inr[OF Inr] iv
  have "calibration_date rec = utcnow_date env"
       "next_calibration_due rec = Some (utcnow_due env + timedelta_days iv)"
    by auto
  ultimately show ?thesis
    by (simp add: history_store_record(1) store_record_other)
qed

lemma intervals:
  "calibration_intervals BLOOD_PRESSURE = Some 365"
  "calibration_intervals PULSE_OXIMETER = Some 180"
  by (simp_all add: calibration_intervals_def)

lemma not_valid_mgr_empty: "\<not> valid_device mgr_empty dev_id dt"
  by (simp add: valid_device_def mgr_empty_def)

lemma not_valid_mgr_bp_po: "\<not> valid_device mgr_bp ''bp-1'' PULSE_OXIMETER"
  using mgr_bp_device by (auto simp: valid_device_def)

text \<open>
  Claim C9, as stated, fails twice. The due date is computed from a second clock read:
  with the two reads one microsecond apart, a successful run stores a
  \<open>next_calibration_due\<close> that is not \<open>calibration_date\<close> plus 365 days. And a call
  for a device that the manager does not hold raises ValueError and appends nothing.
\<close>

theorem calibration_due_date_counterexample:
  "utcnow_date cal_env_five = 1000000 \<and> utcnow_due cal_env_five = 1000001 \<and>
   calibrate_blood_pressure_monitor cal_empty mgr_bp cal_env_five ''bp-1'' 120 80 =
     (Inr record_five, store_record cal_empty ''bp-1'' record_five) \<and>
   cal_status record_five = CALIBRATED \<and>
   calibration_date record_five = 1000000 \<and>
   next_calibration_due record_five = Some (1000001 + timedelta_days 365) \<and>
   next_calibration_due record_five \<noteq> Some (calibration_date record_five + timedelta_days 365) \<and>
   calibrate_blood_pressure_monitor cal_empty mgr_empty cal_env_five ''bp-1'' 120 80 =
     (Inl (PyExc ValueError ''Invalid blood pressure device''), cal_empty) \<and>
   get_calibration_history cal_empty ''bp-1'' = []"
proof -
  have a: "utcnow_date cal_env_five = 1000000" "utcnow_due cal_env_five = 1000001"
    by (simp_all add: cal_env_five_def)
  have b: "cal_status record_five = CALIBRATED" "calibration_date record_five = 1000000"
    "next_calibration_due record_five = Some (1000001 + timedelta_days 365)"
    "next_calibration_due record_five \<noteq> Some (calibration_date record_five + timedelta_days 365)"
    by (simp_all add: record_five_def)
  have c: "calibrate_blood_pressure_monitor cal_empty mgr_empty cal_env_five ''bp-1'' 120 80 =
     (Inl (PyExc ValueError ''Invalid blood pressure device''), cal_empty)"
    by (simp add: calibrate_blood_pressure_monitor_def run_calibration_invalid not_valid_mgr_empty)
  from a b c calibrate_five history_cal_empty[of "''bp-1''"] show ?thesis
    by blast
qed

text \<open>
  Claim C9, amended. A calibration call (blood pressure or pulse oximeter) for a device
  that passes the device check returns a record, and the ledger of the device
  afterwards is the ledger before with exactly this record appended, every other
  ledger unchanged; \<open>calibration_date\<close> is the first clock read, and when the status is
  not \<open>calibration_failed\<close>, \<open>next_calibration_due\<close> is the second clock read plus the
  interval (365 days for blood pressure, 180 for pulse oximetry), which is
  \<open>calibration_date\<close> plus the interval exactly when the two reads agree. A call that fails the
  device check raises ValueError and leaves the calibrator unchanged.
\<close>

theorem calibration_ledger_append_only:
  "(valid_device mgr dev_id BLOOD_PRESSURE \<longrightarrow>
      (\<exists>rec cal'.
         calibrate_blood_pressure_monitor cal mgr env dev_id ref1 ref2 = (Inr rec, cal') \<and>
         get_calibration_history cal' dev_id = get_calibration_history cal dev_id @ [rec] \<and>
         (\<forall>other. other \<noteq> dev_id \<longrightarrow>
            calibration_records cal' other = calibration_records cal other) \<and>
         calibration_date rec = utcnow_date env \<and>
         (cal_status rec \<noteq> CALIBRATION_FAILED \<longrightarrow>
            next_calibration_due rec = Some (utcnow_due env + timedelta_days 365) \<and>
            (next_calibration_due rec = Some (calibration_date rec + timedelta_days 365) \<longleftrightarrow>
               utcnow_due env = utcnow_date env)))) \<and>
   (\<not> valid_device mgr dev_id BLOOD_PRESSURE \<longrightarrow>
      calibrate_blood_pressure_monitor cal mgr env dev_id ref1 ref2 =
        (Inl (PyExc ValueError ''Invalid blood pressure device''), cal)) \<and>
   (valid_device mgr dev_id PULSE_OXIMETER \<longrightarrow>
      (\<exists>rec cal'.
         calibrate_pulse_oximeter cal mgr env dev_id ref1 ref2 = (Inr rec, cal') \<and>
         get_calibration_history cal' dev_id = get_calibration_history cal dev_id @ [rec] \<and>
         (\<forall>other. other \<noteq> dev_id \<longrightarrow>
            calibration_records cal' other = calibration_records cal other) \<and>
         calibration_date rec = utcnow_date env \<and>
         (cal_status rec \<noteq> CALIBRATION_FAILED \<longrightarrow>
            next_calibration_due rec = Some (utcnow_due env + timedelta_days 180) \<and>
            (next_calibration_due rec = Some (calibration_date rec + timedelta_days 180) \<longleftrightarrow>
               utcnow_due env = utcnow_date env)))) \<and>
   (\<not> valid_device mgr dev_id PULSE_OXIMETER \<longrightarrow>
      calibrate_pulse_oximeter cal mgr env dev_id ref1 ref2 =
        (Inl (PyExc ValueError ''Invalid pulse oximeter device''), cal))"
proof (intro conjI impI)
  assume v: "valid_device mgr dev_id BLOOD_PRESSURE"
  show "\<exists>rec cal'.
         calibrate_blood_pressure_monitor cal mgr env dev_id ref1 ref2 = (Inr rec, cal') \<and>
         get_calibration_history cal' dev_id = get_calibration_history cal dev_id @ [rec] \<and>
         (\<forall>other. other \<noteq> dev_id \<longrightarrow>
            calibration_records cal' other = calibration_records cal other) \<and>
         calibration_date rec = utcnow_date env \<and>
         (cal_status rec \<noteq> CALIBRATION_FAILED \<longrightarrow>
            next_calibration_due rec = Some (utcnow_due env + timedelta_days 365) \<and>
            (next_calibration_due rec = Some (calibration_date rec + timedelta_days 365) \<longleftrightarrow>
               utcnow_due env = utcnow_date env))"
    unfolding calibrate_blood_pressure_monitor_def
    by (rule run_calibration_append[OF v intervals(1)])
next
  assume v: "valid_device mgr dev_id PULSE_OXIMETER"
  show "\<exists>rec cal'.
         calibrate_pulse_oximeter cal mgr env dev_id ref1 ref2 = (Inr rec, cal') \<and>
         get_calibration_history cal' dev_id = get_calibration_history cal dev_id @ [rec] \<and>
         (\<forall>other. other \<noteq> dev_id \<longrightarrow>
            calibration_records cal' other = calibration_records cal other) \<and>
         calibration_date rec = utcnow_date env \<and>
         (cal_status rec \<noteq> CALIBRATION_FAILED \<longrightarrow>
            next_calibration_due rec = Some (utcnow_due env + timedelta_days 180) \<and>
            (next_calibration_due rec = Some (calibration_date rec + timedelta_days 180) \<longleftrightarrow>
               utcnow_due env = utcnow_date env))"
    unfolding calibrate_pulse_oximeter_def
    by (rule run_calibration_append[OF v intervals(2)])
qed (simp_all add: calibrate_blood_pressure_monitor_def calibrate_pulse_oximeter_def
       run_calibration_invalid)

theorem calibration_ledger_append_only_witness:
  "valid_device mgr_bp ''bp-1'' BLOOD_PRESSURE \<and>
   calibrate_blood_pressure_monitor cal_empty mgr_bp cal_env_five ''bp-1'' 120 80 =
     (Inr record_five, store_record cal_empty ''bp-1'' record_five) \<and>
   get_calibration_history (store_record cal_empty ''bp-1'' record_five) ''bp-1'' =
     get_calibration_history cal_empty ''bp-1'' @ [record_five] \<and>
   next_calibration_due record_five = Some (utcnow_due cal_env_five + timedelta_days 365) \<and>
   \<not> valid_device mgr_bp ''bp-1'' PULSE_OXIMETER \<and>
   calibrate_pulse_oximeter cal_empty mgr_bp cal_env_five ''bp-1'' 98 70 =
     (Inl (PyExc ValueError ''Invalid pulse oximeter device''), cal_empty)"
proof -
  have d: "next_calibration_due record_five = Some (utcnow_due cal_env_five + timedelta_days 365)"
    by (simp add: record_five_def cal_env_five_def)
  from calibration_ledger_append_only[of mgr_bp "''bp-1''" cal_empty cal_env_five 98 70]
  have "\<not> valid_device mgr_bp ''bp-1'' PULSE_OXIMETER \<longrightarrow>
      calibrate_pulse_oximeter cal_empty mgr_bp cal_env_five ''bp-1'' 98 70 =
        (Inl (PyExc ValueError ''Invalid pulse oximeter device''), cal_empty)"
    by blast
  with not_valid_mgr_bp_po have e: "calibrate_pulse_oximeter cal_empty mgr_bp cal_env_five ''bp-1'' 98 70 =
        (Inl (PyExc ValueError ''Invalid pulse oximeter device''), cal_empty)"
    by blast
  from valid_mgr_bp calibrate_five history_store_record(1)[of cal_empty "''bp-1''" record_five]
    d not_valid_mgr_bp_po e
  show ?thesis by blast
qed

text \<open>
  The rounding of the arithmetic decides runs at the boundary: five readings of the
  double 12.83 have the float mean 12.830000000000002, which the float subtraction puts
  3.0000000000000018 above a reference exactly 3 below 12.83, and the run is out of
  spec.
\<close>

lemma reading_12_83_fields:
  "has_fields [''systolic'', ''diastolic''] reading_12_83"
  "reading_values reading_12_83 ''systolic'' = Some (PyNum (PyFloat v_12_83))"
  "reading_values reading_12_83 ''diastolic'' = Some (PyNum (PyInt 80))"
  by (simp_all add: has_fields_def reading_12_83_def)

lemma py_add_12_83:
  "py_add (PyInt 0) (PyFloat v_12_83) = PyFloat v_12_83"
  "py_add (PyFloat v_12_83) (PyFloat v_12_83) = PyFloat (7222647902395433 / 281474976710656)"
  "py_add (PyFloat (7222647902395433 / 281474976710656)) (PyFloat v_12_83)
     = PyFloat (5416985926796575 / 140737488355328)"
  "py_add (PyFloat (5416985926796575 / 140737488355328)) (PyFloat v_12_83)
     = PyFloat (7222647902395433 / 140737488355328)"
  "py_add (PyFloat (7222647902395433 / 140737488355328)) (PyFloat v_12_83)
     = PyFloat (2257077469498573 / 35184372088832)"
      apply (simp add: py_add_def to_float_def v_12_83_def round_double_zero)
      apply (subst round_double_binade[of 3])
          apply (simp_all add: round_half_even_def power_int_minus Let_def)[5]
     apply (simp add: py_add_def to_float_def v_12_83_def)
     apply (subst round_double_binade[of 4])
         apply (simp_all add: round_half_even_def power_int_minus Let_def)[5]
    apply (simp add: py_add_def to_float_def v_12_83_def)
    apply (subst round_double_binade[of 5])
        apply (simp_all add: round_half_even_def power_int_minus Let_def)[5]
   apply (simp add: py_add_def to_float_def v_12_83_def)
   apply (subst round_double_binade[of 5])
       apply (simp_all add: round_half_even_def power_int_minus Let_def)[5]
  apply (simp add: py_add_def to_float_def v_12_83_def)
  apply (subst round_double_binade[of 6])
      apply (simp_all add: round_half_even_def power_int_minus Let_def)
  done

lemma mean_12_83:
  "py_truediv (PyFloat (2257077469498573 / 35184372088832)) 5 = 3611323951197717 / 281474976710656"
  "float_sub (3611323951197717 / 281474976710656) (v_12_83 - 3) = 1688849860263937 / 562949953421312"
   apply (simp add: py_truediv_def num_val_def)
   apply (subst round_double_binade[of 3])
       apply (simp_all add: round_half_even_def power_int_minus Let_def)[5]
  apply (simp add: float_sub_def v_12_83_def)
  apply (subst round_double_binade[of 1])
      apply (simp_all add: round_half_even_def power_int_minus Let_def)
  done

lemma sum_12_83:
  "sum_field ''systolic'' (PyInt 0)
     [reading_12_83, reading_12_83, reading_12_83, reading_12_83, reading_12_83]
     = Inr (PyFloat (2257077469498573 / 35184372088832))"
  "sum_field ''diastolic'' (PyInt 0)
     [reading_12_83, reading_12_83, reading_12_83, reading_12_83, reading_12_83]
     = Inr (PyInt 400)"
   apply (simp only: sum_field.simps reading_12_83_fields option.case pyval.case py_add_12_83)
  apply (simp add: reading_12_83_fields py_add_def)
  done

lemma collect_12_83:
  "collect_readings [''systolic'', ''diastolic''] (map (read_outcomes cal_env_12_83) [0..<5]) [] =
     Inr [reading_12_83, reading_12_83, reading_12_83, reading_12_83, reading_12_83]"
  by (simp add: upt_5 cal_env_12_83_def reading_12_83_fields)

lemma try_12_83:
  "calibration_try BLOOD_PRESSURE ''systolic'' ''diastolic'' 5 3 cal_env_12_83 ''bp-1''
     (v_12_83 - 3) 80 = Inr record_12_83"
proof -
  let ?rs = "[reading_12_83, reading_12_83, reading_12_83, reading_12_83, reading_12_83]"
  have n: "length ?rs = 5" by simp
  have dia: "py_truediv (PyInt 400) 5 = 80" "float_sub 80 80 = 0"
    by (simp_all add: py_truediv_def num_val_def float_sub_def round_double_small_ints
        round_double_zero)
  have th: "deviation_thresholds BLOOD_PRESSURE ''systolic'' = Some 3"
    "deviation_thresholds BLOOD_PRESSURE ''diastolic'' = Some 3"
    "calibration_intervals BLOOD_PRESSURE = Some 365"
    by (simp_all add: deviation_thresholds_def calibration_intervals_def)
  have "calibration_try BLOOD_PRESSURE ''systolic'' ''diastolic'' 5 3 cal_env_12_83 ''bp-1''
     (v_12_83 - 3) 80 =
     Inr \<lparr> cal_device_id = ''bp-1'',
           calibration_date = utcnow_date cal_env_12_83,
           calibration_type = ''user'',
           reference_values = [''systolic'' \<mapsto> v_12_83 - 3, ''diastolic'' \<mapsto> 80],
           measured_values = [''systolic'' \<mapsto> 3611323951197717 / 281474976710656,
                              ''diastolic'' \<mapsto> 80],
           deviation_values = [''systolic'' \<mapsto> \<bar>1688849860263937 / 562949953421312\<bar>,
                               ''diastolic'' \<mapsto> \<bar>0\<bar>],
           cal_status = (if \<bar>1688849860263937 / 562949953421312 :: real\<bar> > 3 \<or> \<bar>0 :: real\<bar> > 3
                         then OUT_OF_SPEC else CALIBRATED),
           technician_id = None,
           cal_notes = None,
           next_calibration_due = Some (utcnow_due cal_env_12_83 + timedelta_days 365),
           certificate_number = None \<rparr>"
    unfolding calibration_try_def collect_12_83
    by (simp only: sum.case n sum_12_83 th prod.case option.case Let_def mean_12_83 dia
        if_False numeral_less_iff Num.num.simps less_numeral_extra refl
        semiring_norm)
  then show ?thesis
    by (simp add: record_12_83_def cal_env_12_83_def)
qed

lemma calibrate_12_83:
  "calibrate_blood_pressure_monitor cal_empty mgr_bp cal_env_12_83 ''bp-1'' (v_12_83 - 3) 80 =
     (Inr record_12_83, store_record cal_empty ''bp-1'' record_12_83)"
  "cal_status record_12_83 = OUT_OF_SPEC"
  "deviation_values record_12_83 ''systolic'' = Some (1688849860263937 / 562949953421312)"
  using mgr_bp_device
  by (auto simp: calibrate_blood_pressure_monitor_def run_calibration_def try_12_83
      record_12_83_def)

section \<open>Calibration status\<close>

lemma max_by_date_props:
  "max_by_date best rs \<in> set (best # rs) \<and>
   (\<forall>r \<in> set (best # rs). calibration_date r \<le> calibration_date (max_by_date best rs))"
proof (induction rs arbitrary: best)
  case Nil
  then show ?case by simp
next
  case (Cons r rs)
  from Cons.IH[of "if calibration_date r > calibration_date best then r else best"]
  show ?case by (auto split: if_splits)
qed

lemma days_of_greater:
  "days_of delta > n \<longleftrightarrow> delta \<ge> timedelta_days (n + 1)"
  unfolding days_of_def timedelta_days_def by auto

lemma check_calibration_status_present:
  assumes "calibration_records cal dev_id = Some (r # rs)"
    and "devices mgr dev_id = Some device"
  shows "check_calibration_status cal mgr now dev_id =
           (if now - calibration_date (max_by_date r rs) \<ge>
                 timedelta_days ((case calibration_intervals (device_type (device_info device)) of
                                    None \<Rightarrow> 180 | Some d \<Rightarrow> d) + 1)
            then NEEDS_CALIBRATION else cal_status (max_by_date r rs))"
  using assms
  by (simp add: check_calibration_status_def Let_def days_of_greater)

lemma cal_five_records: "calibration_records cal_five ''bp-1'' = Some [record_five]"
  by (simp add: cal_five_def store_record_def cal_empty_def)

lemma mgr_after_disconnect_devices: "devices mgr_after_disconnect ''bp-1'' = None"
  unfolding mgr_after_disconnect_def disconnect_device_def
  using mgr_bp_device
  by (auto simp: disconnect_def ble_disconnect_def env_ble_ok_def mgr_bp_def connect_device_def
      connect_def create_driver_def info_bp_def new_driver_def ble_connect_def mgr_empty_def
      add_callback_def)

lemma check_cal_five:
  "check_calibration_status cal_five mgr_bp now ''bp-1'' =
     (if now - 1000000 \<ge> timedelta_days 366 then NEEDS_CALIBRATION else CALIBRATED)"
proof -
  from mgr_bp_device obtain device where
    d: "devices mgr_bp ''bp-1'' = Some device" "device_type (device_info device) = BLOOD_PRESSURE"
    by blast
  show ?thesis
    unfolding check_calibration_status_present[OF cal_five_records d(1)] d(2)
    by (simp add: calibration_intervals_def record_five_def)
qed

text \<open>
  Claim C4, as stated, fails twice. A device that has a calibrated record but is no
  longer in the manager's table (it was disconnected) gets \<open>unknown\<close>, not the status
  of its latest record. And 365 days and 12 hours after a blood-pressure calibration
  the 365-day interval has elapsed, yet the stored status \<open>calibrated\<close> is returned.
\<close>

theorem check_calibration_status_counterexample:
  "get_calibration_history cal_five ''bp-1'' = [record_five] \<and>
   cal_status record_five = CALIBRATED \<and>
   calibration_date record_five = 1000000 \<and>
   check_calibration_status cal_five mgr_after_disconnect 1000000 ''bp-1'' = UNKNOWN \<and>
   1000000 + timedelta_days 365 + timedelta_hours 12 > calibration_date record_five + timedelta_days 365 \<and>
   check_calibration_status cal_five mgr_bp (1000000 + timedelta_days 365 + timedelta_hours 12) ''bp-1''
     = CALIBRATED"
proof -
  have a: "get_calibration_history cal_five ''bp-1'' = [record_five]"
    by (simp add: get_calibration_history_def cal_five_records)
  have b: "cal_status record_five = CALIBRATED" "calibration_date record_five = 1000000"
    by (simp_all add: record_five_def)
  have c: "check_calibration_status cal_five mgr_after_disconnect 1000000 ''bp-1'' = UNKNOWN"
    by (simp add: check_calibration_status_def cal_five_records mgr_after_disconnect_devices)
  have d: "1000000 + timedelta_days 365 + timedelta_hours 12 >
             calibration_date record_five + timedelta_days 365"
    by (simp add: b timedelta_hours_def)
  have e: "check_calibration_status cal_five mgr_bp
             (1000000 + timedelta_days 365 + timedelta_hours 12) ''bp-1'' = CALIBRATED"
    by (simp add: check_cal_five timedelta_days_def timedelta_hours_def)
  from a b c d e show ?thesis by blast
qed

text \<open>
  Claim C4, amended. \<open>check_calibration_status\<close> returns \<open>unknown\<close> when the device
  has no ledger entry, and \<open>needs_calibration\<close> for an empty entry. With a non-empty
  ledger it returns \<open>unknown\<close> when the manager does not hold the device; otherwise,
  for a record \<open>latest\<close> of the ledger that no record exceeds in \<open>calibration_date\<close>,
  it returns \<open>needs_calibration\<close> when at least the interval plus one whole days have
  passed since that date (the interval of the device's type, 180 days for a type
  without one), and the stored status of \<open>latest\<close> otherwise. In particular a
  blood-pressure device whose latest record is 366 days old gets \<open>needs_calibration\<close>
  whatever the stored status.
\<close>

theorem check_calibration_status_cases:
  "(calibration_records cal dev_id = None \<longrightarrow>
      check_calibration_status cal mgr now dev_id = UNKNOWN) \<and>
   (calibration_records cal dev_id = Some [] \<longrightarrow>
      check_calibration_status cal mgr now dev_id = NEEDS_CALIBRATION) \<and>
   (\<forall>records. calibration_records cal dev_id = Some records \<and> records \<noteq> [] \<longrightarrow>
      (devices mgr dev_id = None \<longrightarrow> check_calibration_status cal mgr now dev_id = UNKNOWN) \<and>
      (\<forall>device. devices mgr dev_id = Some device \<longrightarrow>
         (\<exists>latest \<in> set records.
            (\<forall>r \<in> set records. calibration_date r \<le> calibration_date latest) \<and>
            check_calibration_status cal mgr now dev_id =
              (if now - calibration_date latest \<ge>
                    timedelta_days ((case calibration_intervals (device_type (device_info device)) of
                                       None \<Rightarrow> 180 | Some d \<Rightarrow> d) + 1)
               then NEEDS_CALIBRATION else cal_status latest) \<and>
            (device_type (device_info device) = BLOOD_PRESSURE \<and>
             now - calibration_date latest \<ge> timedelta_days 366 \<longrightarrow>
               check_calibration_status cal mgr now dev_id = NEEDS_CALIBRATION))))"
proof (intro conjI allI impI)
  fix records device
  assume rec: "calibration_records cal dev_id = Some records \<and> records \<noteq> []"
    and dev: "devices mgr dev_id = Some device"
  from rec obtain r rs where rs: "records = r # rs" by (cases records) auto
  let ?latest = "max_by_date r rs"
  from rec rs have c: "calibration_records cal dev_id = Some (r # rs)" by simp
  note st = check_calibration_status_present[OF c dev, of now]
  have "?latest \<in> set records" "\<forall>x \<in> set records. calibration_date x \<le> calibration_date ?latest"
    using max_by_date_props[of r rs] rs by auto
  moreover have "device_type (device_info device) = BLOOD_PRESSURE \<and>
             now - calibration_date ?latest \<ge> timedelta_days 366 \<longrightarrow>
               check_calibration_status cal mgr now dev_id = NEEDS_CALIBRATION"
    unfolding st by (simp add: calibration_intervals_def)
  ultimately show "\<exists>latest \<in> set records.
            (\<forall>r \<in> set records. calibration_date r \<le> calibration_date latest) \<and>
            check_calibration_status cal mgr now dev_id =
              (if now - calibration_date latest \<ge>
                    timedelta_days ((case calibration_intervals (device_type (device_info device)) of
                                       None \<Rightarrow> 180 | Some d \<Rightarrow> d) + 1)
               then NEEDS_CALIBRATION else cal_status latest) \<and>
            (device_type (device_info device) = BLOOD_PRESSURE \<and>
             now - calibration_date latest \<ge> timedelta_days 366 \<longrightarrow>
               check_calibration_status cal mgr now dev_id = NEEDS_CALIBRATION)"
    using st by (intro bexI[of _ ?latest]) simp_all
qed (auto simp: check_calibration_status_def split: list.splits)

theorem check_calibration_status_cases_witness:
  "calibration_records cal_five ''bp-1'' = Some [record_five] \<and>
   cal_status record_five = CALIBRATED \<and>
   check_calibration_status cal_five mgr_bp (1000000 + timedelta_days 366) ''bp-1''
     = NEEDS_CALIBRATION \<and>
   check_calibration_status cal_five mgr_after_disconnect (1000000 + timedelta_days 366) ''bp-1''
     = UNKNOWN \<and>
   check_calibration_status cal_empty mgr_bp (1000000 + timedelta_days 366) ''bp-1'' = UNKNOWN"
proof -
  have b: "cal_status record_five = CALIBRATED" by (simp add: record_five_def)
  have n: "calibration_records cal_empty ''bp-1'' = None" by (simp add: cal_empty_def)
  from check_calibration_status_cases[of cal_five "''bp-1''" mgr_after_disconnect
         "1000000 + timedelta_days 366"]
       cal_five_records mgr_after_disconnect_devices
  have u: "check_calibration_status cal_five mgr_after_disconnect (1000000 + timedelta_days 366) ''bp-1''
     = UNKNOWN" by simp
  from check_calibration_status_cases[of cal_empty "''bp-1''" mgr_bp "1000000 + timedelta_days 366"] n
  have v: "check_calibration_status cal_empty mgr_bp (1000000 + timedelta_days 366) ''bp-1'' = UNKNOWN"
    by simp
  from mgr_bp_device obtain device where
    d: "devices mgr_bp ''bp-1'' = Some device" "device_type (device_info device) = BLOOD_PRESSURE"
    by blast
  from check_calibration_status_cases[of cal_five "''bp-1''" mgr_bp "1000000 + timedelta_days 366"]
       cal_five_records d
  have "1000000 + timedelta_days 366 - calibration_date record_five \<ge> timedelta_days 366 \<longrightarrow>
          check_calibration_status cal_five mgr_bp (1000000 + timedelta_days 366) ''bp-1''
            = NEEDS_CALIBRATION"
    by auto
  then have w: "check_calibration_status cal_five mgr_bp (1000000 + timedelta_days 366) ''bp-1''
     = NEEDS_CALIBRATION"
    by (simp add: record_five_def)
  from cal_five_records b u v w show ?thesis by blast
qed

section \<open>Health monitoring\<close>

lemma get_device_health_of_sample:
  assumes hm: "health_metrics m dev_id =
                 Some (filter (\<lambda>x. metrics_timestamp x > cutoff)
                         (old @ [health_sample dev_id device now battery]))"
    and kept: "now > cutoff"
  shows "get_device_health m dev_id =
           (if status device = CONNECTED then HEALTHY
            else if status device = ERROR \<or> status device = DISCONNECTED then CRITICAL
            else WARNING)"
proof -
  let ?s = "health_sample dev_id device now battery"
  let ?P = "\<lambda>x. metrics_timestamp x > cutoff"
  have P: "?P ?s" using kept by (simp add: health_sample_def)
  have ne: "filter ?P (old @ [?s]) \<noteq> []" using P by simp
  have l: "last (filter ?P (old @ [?s])) = ?s" using P by simp
  have q: "metrics_quality_score ?s = status_quality_score (status device)"
    by (simp add: health_sample_def)
  show ?thesis
    unfolding get_device_health_def hm option.case Let_def l q
    using ne by (auto simp: status_quality_score_def)
qed

lemma check_device_health_metrics:
  "health_metrics (check_device_health mon dev_id device now battery now_cutoff) =
     (health_metrics mon)
       (dev_id \<mapsto> filter (\<lambda>m. metrics_timestamp m > now_cutoff - timedelta_hours 24)
          ((case health_metrics mon dev_id of None \<Rightarrow> [] | Some ms \<Rightarrow> ms)
             @ [health_sample dev_id device now battery]))"
  by (simp add: check_device_health_def Let_def)

lemma get_device_health_after_check:
  assumes "now > now_cutoff - timedelta_hours 24"
  shows "get_device_health (check_device_health mon dev_id device now battery now_cutoff) dev_id =
           (if status device = CONNECTED then HEALTHY
            else if status device = ERROR \<or> status device = DISCONNECTED then CRITICAL
            else WARNING)"
  by (rule get_device_health_of_sample[OF _ assms]) (simp add: check_device_health_metrics)

text \<open>A tick leaves the samples of a device it does not visit as they were.\<close>

lemma monitoring_tick_other:
  "dev_id \<notin> fst ` set items \<Longrightarrow>
   health_metrics (monitoring_tick items mon) dev_id = health_metrics mon dev_id"
  by (induction items mon rule: monitoring_tick.induct)
     (auto simp: check_device_health_metrics)

text \<open>A tick checks every device of the table once (the keys of a dict are distinct).\<close>

lemma monitoring_tick_item:
  assumes "distinct (map fst items)"
    and "(dev_id, device, now, battery, now_cutoff) \<in> set items"
  shows "health_metrics (monitoring_tick items mon) dev_id =
           Some (filter (\<lambda>m. metrics_timestamp m > now_cutoff - timedelta_hours 24)
                   ((case health_metrics mon dev_id of None \<Rightarrow> [] | Some ms \<Rightarrow> ms)
                      @ [health_sample dev_id device now battery]))"
  using assms
proof (induction items mon rule: monitoring_tick.induct)
  case (1 mon)
  then show ?case by simp
next
  case (2 id' device' now' battery' cutoff' items mon)
  show ?case
  proof (cases "(dev_id, device, now, battery, now_cutoff) = (id', device', now', battery', cutoff')")
    case True
    with 2(2) have "dev_id \<notin> fst ` set items" by auto
    from monitoring_tick_other[OF this] True show ?thesis
      by (simp add: check_device_health_metrics)
  next
    case False
    with 2(3) have mem: "(dev_id, device, now, battery, now_cutoff) \<in> set items" by auto
    with 2(2) have ne: "id' \<noteq> dev_id" by force
    from 2(2) have d: "distinct (map fst items)" by simp
    from 2(1)[OF d mem] ne show ?thesis
      by (simp add: check_device_health_metrics)
  qed
qed

text \<open>
  Claim C6. Each monitoring tick visits every device of the table and stores for it a
  sample whose quality score is 0.0 when the connection state is \<open>error\<close> or
  \<open>disconnected\<close>, 0.8 when it is \<open>connected\<close> and 0.6 in any other state: the
  samples of a visited device afterwards are its old samples and the new one, those
  newer than 24 hours before the second clock read of its check. A loop task that
  finds the flag set at its \<open>while\<close> test runs exactly this tick.
  \<open>get_device_health\<close> returns \<open>offline\<close> for a device without samples, and otherwise
  maps the score of the last sample to \<open>healthy\<close> (at least 0.8), \<open>warning\<close> (at
  least 0.6) or \<open>critical\<close>. So right after a check or a tick whose sample is kept, a
  connected device is \<open>healthy\<close>, one in \<open>error\<close> or \<open>disconnected\<close> is \<open>critical\<close>,
  any other is \<open>warning\<close>.
\<close>

theorem health_score_and_status:
  "metrics_quality_score (health_sample dev_id device now battery) =
      (if status device = ERROR \<or> status device = DISCONNECTED then 0
       else if status device = CONNECTED then 0.8 else 0.6) \<and>
   health_metrics (check_device_health mon dev_id device now battery now_cutoff) dev_id =
      Some (filter (\<lambda>m. metrics_timestamp m > now_cutoff - timedelta_hours 24)
             ((case health_metrics mon dev_id of None \<Rightarrow> [] | Some ms \<Rightarrow> ms)
                @ [health_sample dev_id device now battery])) \<and>
   (health_metrics mon dev_id = None \<or> health_metrics mon dev_id = Some [] \<longrightarrow>
      get_device_health mon dev_id = OFFLINE) \<and>
   (\<forall>ms. health_metrics mon dev_id = Some ms \<and> ms \<noteq> [] \<longrightarrow>
      get_device_health mon dev_id =
        (if metrics_quality_score (last ms) \<ge> 0.8 then HEALTHY
         else if metrics_quality_score (last ms) \<ge> 0.6 then WARNING
         else CRITICAL)) \<and>
   (now > now_cutoff - timedelta_hours 24 \<longrightarrow>
      get_device_health (check_device_health mon dev_id device now battery now_cutoff) dev_id =
        (if status device = CONNECTED then HEALTHY
         else if status device = ERROR \<or> status device = DISCONNECTED then CRITICAL
         else WARNING)) \<and>
   (distinct (map fst items) \<and> (dev_id, device, now, battery, now_cutoff) \<in> set items \<longrightarrow>
      health_metrics (monitoring_tick items mon) dev_id =
        Some (filter (\<lambda>m. metrics_timestamp m > now_cutoff - timedelta_hours 24)
               ((case health_metrics mon dev_id of None \<Rightarrow> [] | Some ms \<Rightarrow> ms)
                  @ [health_sample dev_id device now battery])) \<and>
      (now > now_cutoff - timedelta_hours 24 \<longrightarrow>
         get_device_health (monitoring_tick items mon) dev_id =
           (if status device = CONNECTED then HEALTHY
            else if status device = ERROR \<or> status device = DISCONNECTED then CRITICAL
            else WARNING))) \<and>
   (dev_id \<notin> fst ` set items \<longrightarrow>
      health_metrics (monitoring_tick items mon) dev_id = health_metrics mon dev_id) \<and>
   (\<forall>i. i < length (loop_tasks mon) \<and> loop_tasks mon ! i = AtWhileTest \<and> monitoring_active mon \<longrightarrow>
      health_metrics (resume_loop items i mon) = health_metrics (monitoring_tick items mon))"
proof (intro conjI)
  show "metrics_quality_score (health_sample dev_id device now battery) =
      (if status device = ERROR \<or> status device = DISCONNECTED then 0
       else if status device = CONNECTED then 0.8 else 0.6)"
    by (simp add: health_sample_def status_quality_score_def)
  show "health_metrics (check_device_health mon dev_id device now battery now_cutoff) dev_id =
      Some (filter (\<lambda>m. metrics_timestamp m > now_cutoff - timedelta_hours 24)
             ((case health_metrics mon dev_id of None \<Rightarrow> [] | Some ms \<Rightarrow> ms)
                @ [health_sample dev_id device now battery]))"
    by (simp add: check_device_health_metrics)
  show "health_metrics mon dev_id = None \<or> health_metrics mon dev_id = Some [] \<longrightarrow>
      get_device_health mon dev_id = OFFLINE"
    by (auto simp: get_device_health_def)
  show "\<forall>ms. health_metrics mon dev_id = Some ms \<and> ms \<noteq> [] \<longrightarrow>
      get_device_health mon dev_id =
        (if metrics_quality_score (last ms) \<ge> 0.8 then HEALTHY
         else if metrics_quality_score (last ms) \<ge> 0.6 then WARNING
         else CRITICAL)"
    by (auto simp: get_device_health_def Let_def)
  show "now > now_cutoff - timedelta_hours 24 \<longrightarrow>
      get_device_health (check_device_health mon dev_id device now battery now_cutoff) dev_id =
        (if status device = CONNECTED then HEALTHY
         else if status device = ERROR \<or> status device = DISCONNECTED then CRITICAL
         else WARNING)"
    using get_device_health_after_check by blast
  show "distinct (map fst items) \<and> (dev_id, device, now, battery, now_cutoff) \<in> set items \<longrightarrow>
      health_metrics (monitoring_tick items mon) dev_id =
        Some (filter (\<lambda>m. metrics_timestamp m > now_cutoff - timedelta_hours 24)
               ((case health_metrics mon dev_id of None \<Rightarrow> [] | Some ms \<Rightarrow> ms)
                  @ [health_sample dev_id device now battery])) \<and>
      (now > now_cutoff - timedelta_hours 24 \<longrightarrow>
         get_device_health (monitoring_tick items mon) dev_id =
           (if status device = CONNECTED then HEALTHY
            else if status device = ERROR \<or> status device = DISCONNECTED then CRITICAL
            else WARNING))"
  proof (intro impI conjI)
    assume a: "distinct (map fst items) \<and> (dev_id, device, now, battery, now_cutoff) \<in> set items"
    then show hm: "health_metrics (monitoring_tick items mon) dev_id =
        Some (filter (\<lambda>m. metrics_timestamp m > now_cutoff - timedelta_hours 24)
               ((case health_metrics mon dev_id of None \<Rightarrow> [] | Some ms \<Rightarrow> ms)
                  @ [health_sample dev_id device now battery]))"
      using monitoring_tick_item by blast
    assume "now > now_cutoff - timedelta_hours 24"
    from get_device_health_of_sample[OF hm this]
    show "get_device_health (monitoring_tick items mon) dev_id =
           (if status device = CONNECTED then HEALTHY
            else if status device = ERROR \<or> status device = DISCONNECTED then CRITICAL
            else WARNING)" .
  qed
  show "dev_id \<notin> fst ` set items \<longrightarrow>
      health_metrics (monitoring_tick items mon) dev_id = health_metrics mon dev_id"
    using monitoring_tick_other by blast
  show "\<forall>i. i < length (loop_tasks mon) \<and> loop_tasks mon ! i = AtWhileTest \<and> monitoring_active mon \<longrightarrow>
      health_metrics (resume_loop items i mon) = health_metrics (monitoring_tick items mon)"
    by (simp add: resume_loop_def)
qed

lemma driver_bp_connected_status: "status driver_bp_connected = CONNECTED"
  by (simp add: driver_bp_connected_def ble_connect_def env_ble_ok_def Let_def)

lemma new_monitor_metrics: "health_metrics new_monitor dev_id = None"
  by (simp add: new_monitor_def)

theorem health_score_and_status_witness:
  "status driver_bp_connected = CONNECTED \<and>
   metrics_quality_score (health_sample ''bp-1'' driver_bp_connected 5000 NoBatteryMethod) = 0.8 \<and>
   get_device_health new_monitor ''bp-1'' = OFFLINE \<and>
   get_device_health
     (check_device_health new_monitor ''bp-1'' driver_bp_connected 5000 NoBatteryMethod 5001) ''bp-1''
     = HEALTHY \<and>
   get_device_health
     (monitoring_tick [(''bp-1'', driver_bp_connected, 5000, NoBatteryMethod, 5001)] new_monitor)
     ''bp-1'' = HEALTHY"
proof -
  note t = health_score_and_status[of "''bp-1''" driver_bp_connected 5000 NoBatteryMethod
             new_monitor 5001 "[(''bp-1'', driver_bp_connected, 5000, NoBatteryMethod, 5001)]"]
  from t have a: "metrics_quality_score (health_sample ''bp-1'' driver_bp_connected 5000 NoBatteryMethod) = 0.8"
    by (simp add: driver_bp_connected_status)
  from t new_monitor_metrics[of "''bp-1''"] have b: "get_device_health new_monitor ''bp-1'' = OFFLINE"
    by blast
  have k: "(5000::int) > 5001 - timedelta_hours 24" by (simp add: timedelta_hours_def)
  from t have "5000 > 5001 - timedelta_hours 24 \<longrightarrow>
      get_device_health
        (check_device_health new_monitor ''bp-1'' driver_bp_connected 5000 NoBatteryMethod 5001) ''bp-1''
        = (if status driver_bp_connected = CONNECTED then HEALTHY
           else if status driver_bp_connected = ERROR \<or> status driver_bp_connected = DISCONNECTED
           then CRITICAL else WARNING)"
    by blast
  with k have c: "get_device_health
     (check_device_health new_monitor ''bp-1'' driver_bp_connected 5000 NoBatteryMethod 5001) ''bp-1''
     = HEALTHY"
    by (simp add: driver_bp_connected_status)
  have m: "distinct (map fst [(''bp-1'', driver_bp_connected, 5000::int, NoBatteryMethod, 5001::int)]) \<and>
        (''bp-1'', driver_bp_connected, 5000, NoBatteryMethod, 5001) \<in>
          set [(''bp-1'', driver_bp_connected, 5000, NoBatteryMethod, 5001)]"
    by simp
  from t m have "5000 > 5001 - timedelta_hours 24 \<longrightarrow>
      get_device_health
        (monitoring_tick [(''bp-1'', driver_bp_connected, 5000, NoBatteryMethod, 5001)] new_monitor)
        ''bp-1''
        = (if status driver_bp_connected = CONNECTED then HEALTHY
           else if status driver_bp_connected = ERROR \<or> status driver_bp_connected = DISCONNECTED
           then CRITICAL else WARNING)"
    by blast
  with k have d: "get_device_health
     (monitoring_tick [(''bp-1'', driver_bp_connected, 5000, NoBatteryMethod, 5001)] new_monitor)
     ''bp-1'' = HEALTHY"
    by (simp add: driver_bp_connected_status)
  from driver_bp_connected_status a b c d show ?thesis by blast
qed






section \<open>Driver connection state\<close>

lemma ble_disconnect_cases:
  "ble_disconnect env drv =
     (if link_up drv \<and> stop_notify_outcome env = Returns \<and> disconnect_outcome env = Returns
      then drv\<lparr> client := Some ((the (client drv))\<lparr> is_connected := False \<rparr>), status := DISCONNECTED \<rparr>
      else drv)"
  by (auto simp: ble_disconnect_def link_up_def split: option.splits call_outcome.splits)

lemma ble_disconnect_idle: "\<not> link_up drv \<Longrightarrow> ble_disconnect env drv = drv"
  by (simp add: ble_disconnect_cases)

lemma link_up_after:
  "link_up drv \<Longrightarrow> stop_notify_outcome env = Returns \<Longrightarrow> disconnect_outcome env = Returns \<Longrightarrow>
   \<not> link_up (ble_disconnect env drv) \<and> status (ble_disconnect env drv) = DISCONNECTED"
  by (simp add: ble_disconnect_cases link_up_def)

lemma driver_bp_failed_eval:
  "status driver_bp_failed = ERROR" "\<not> link_up driver_bp_failed"
  "driver_class driver_bp_failed = BloodPressureDriverClass"
  by (simp_all add: driver_bp_failed_def ble_connect_def env_connect_fails_def env_ble_ok_def
      Let_def link_up_def create_driver_def info_bp_def new_driver_def)

lemma driver_bp_connected_eval:
  "link_up driver_bp_connected" "driver_class driver_bp_connected = BloodPressureDriverClass"
  by (simp_all add: driver_bp_connected_def ble_connect_def env_ble_ok_def
      Let_def link_up_def create_driver_def info_bp_def new_driver_def)

text \<open>
  Claim C8, as stated, fails. A blood-pressure driver whose \<open>connect()\<close> failed in the
  transport is in state \<open>error\<close> with a client that is not connected; \<open>disconnect()\<close>
  then skips its whole body and the driver stays in \<open>error\<close>.
\<close>

theorem disconnect_status_counterexample:
  "connect env_connect_fails (create_driver info_bp) = Inr (False, driver_bp_failed) \<and>
   status driver_bp_failed = ERROR \<and>
   disconnect env_ble_ok driver_bp_failed = Inr driver_bp_failed \<and>
   status driver_bp_failed \<noteq> DISCONNECTED"
proof -
  have a: "connect env_connect_fails (create_driver info_bp) = Inr (False, driver_bp_failed)"
    by (simp add: connect_def driver_bp_failed_def create_driver_def info_bp_def new_driver_def
        ble_connect_def env_connect_fails_def env_ble_ok_def Let_def)
  have b: "disconnect env_ble_ok driver_bp_failed = Inr driver_bp_failed"
    by (simp add: disconnect_def driver_bp_failed_eval ble_disconnect_idle)
  from a b driver_bp_failed_eval(1) show ?thesis by simp
qed

text \<open>
  Claim C8, amended. For a blood-pressure or pulse-oximeter driver \<open>disconnect()\<close>
  never raises. When the driver has a client with a live connection and both
  \<open>stop_notify\<close> and the transport's \<open>disconnect\<close> return, the driver ends
  \<open>disconnected\<close> with the connection down; in every other case the driver is left
  exactly as it was, so a driver that was \<open>disconnected\<close> stays so and one in \<open>error\<close>
  or \<open>connecting\<close> without a live connection keeps that state. When the first call
  met no transport exception, a second call leaves the driver unchanged.
\<close>

theorem disconnect_status:
  assumes "driver_class drv = BloodPressureDriverClass \<or> driver_class drv = PulseOximeterDriverClass"
  shows "\<exists>drv'. disconnect env drv = Inr drv' \<and>
           (link_up drv \<and> stop_notify_outcome env = Returns \<and> disconnect_outcome env = Returns \<longrightarrow>
              status drv' = DISCONNECTED \<and> \<not> link_up drv') \<and>
           (\<not> (link_up drv \<and> stop_notify_outcome env = Returns \<and> disconnect_outcome env = Returns) \<longrightarrow>
              drv' = drv) \<and>
           (status drv = DISCONNECTED \<longrightarrow> status drv' = DISCONNECTED) \<and>
           (\<not> link_up drv \<or> (stop_notify_outcome env = Returns \<and> disconnect_outcome env = Returns) \<longrightarrow>
              disconnect env2 drv' = Inr drv')"
proof -
  have d: "disconnect env drv = Inr (ble_disconnect env drv)"
    using assms by (auto simp: disconnect_def)
  have cls: "driver_class (ble_disconnect env drv) = driver_class drv"
    by (simp add: ble_disconnect_cases)
  have d2: "disconnect env2 (ble_disconnect env drv) = Inr (ble_disconnect env2 (ble_disconnect env drv))"
    using assms cls by (auto simp: disconnect_def)
  have idem: "\<not> link_up drv \<or> (stop_notify_outcome env = Returns \<and> disconnect_outcome env = Returns) \<longrightarrow>
        ble_disconnect env2 (ble_disconnect env drv) = ble_disconnect env drv"
  proof (cases "link_up drv")
    case True
    then show ?thesis using link_up_after[of drv env] ble_disconnect_idle by auto
  next
    case False
    then show ?thesis by (simp add: ble_disconnect_idle)
  qed
  show ?thesis
    apply (rule exI[of _ "ble_disconnect env drv"])
    using d d2 idem link_up_after[of drv env]
    by (auto simp: ble_disconnect_cases)
qed

theorem disconnect_status_witness:
  "link_up driver_bp_connected \<and> status driver_bp_connected = CONNECTED \<and>
   disconnect env_ble_ok driver_bp_connected = Inr (ble_disconnect env_ble_ok driver_bp_connected) \<and>
   status (ble_disconnect env_ble_ok driver_bp_connected) = DISCONNECTED \<and>
   disconnect env_ble_ok (ble_disconnect env_ble_ok driver_bp_connected) =
     Inr (ble_disconnect env_ble_ok driver_bp_connected)"
proof -
  have c: "driver_class driver_bp_connected = BloodPressureDriverClass \<or>
           driver_class driver_bp_connected = PulseOximeterDriverClass"
    by (simp add: driver_bp_connected_eval)
  have e: "stop_notify_outcome env_ble_ok = Returns" "disconnect_outcome env_ble_ok = Returns"
    by (simp_all add: env_ble_ok_def)
  have d: "disconnect env_ble_ok driver_bp_connected = Inr (ble_disconnect env_ble_ok driver_bp_connected)"
    by (simp add: disconnect_def driver_bp_connected_eval)
  from disconnect_status[OF c, of env_ble_ok env_ble_ok] d e driver_bp_connected_eval(1)
  have "status (ble_disconnect env_ble_ok driver_bp_connected) = DISCONNECTED \<and>
        disconnect env_ble_ok (ble_disconnect env_ble_ok driver_bp_connected) =
          Inr (ble_disconnect env_ble_ok driver_bp_connected)"
    by auto
  with d driver_bp_connected_eval(1) driver_bp_connected_status show ?thesis by blast
qed

section \<open>The device table\<close>

lemma ble_connect_success:
  "fst (ble_connect env drv) \<longleftrightarrow>
     BLE_AVAILABLE env \<and> connect_outcome env = Returns \<and> start_notify_outcome env = Returns"
  by (auto simp: ble_connect_def Let_def split: call_outcome.splits)

lemma create_driver_class:
  "driver_class (create_driver info) = DeviceDriverClass \<longleftrightarrow>
     device_type info \<noteq> BLOOD_PRESSURE \<and> device_type info \<noteq> PULSE_OXIMETER \<and>
     device_type info \<noteq> THERMOMETER"
  by (simp add: create_driver_def new_driver_def)

lemma connect_True_iff:
  "(\<exists>driver. connect env (create_driver info) = Inr (True, driver)) \<longleftrightarrow>
     (device_type info = BLOOD_PRESSURE \<or> device_type info = PULSE_OXIMETER \<or>
      device_type info = THERMOMETER) \<and>
     BLE_AVAILABLE env \<and> connect_outcome env = Returns \<and> start_notify_outcome env = Returns"
proof (cases "driver_class (create_driver info) = DeviceDriverClass")
  case True
  then show ?thesis using create_driver_class[of info] by (auto simp: connect_def)
next
  case False
  then have c: "connect env (create_driver info) = Inr (ble_connect env (create_driver info))"
    by (cases "driver_class (create_driver info)") (simp_all add: connect_def)
  have "(\<exists>driver. ble_connect env (create_driver info) = (True, driver)) \<longleftrightarrow>
          fst (ble_connect env (create_driver info))"
    by (cases "ble_connect env (create_driver info)") auto
  with False c show ?thesis
    using create_driver_class[of info] ble_connect_success[of env "create_driver info"] by auto
qed

text \<open>
  Claim C10. \<open>connect_device\<close> returns true and maps the device id to the new driver
  (with the manager's reading callback added) exactly when the driver's \<open>connect()\<close>
  returns true, that is for a blood-pressure, pulse-oximeter or thermometer device with
  BLE available and both transport calls returning; the stored driver is then
  \<open>connected\<close>. When \<open>connect()\<close> returns false or raises, \<open>connect_device\<close> returns
  false and the manager is unchanged. No other entry of the table changes in either
  case.
\<close>

theorem connect_device_table:
  "(\<forall>driver. connect env (create_driver info) = Inr (True, driver) \<longrightarrow>
      connect_device env mgr info =
        (True, mgr\<lparr> devices := (devices mgr)
                 (device_id info \<mapsto> add_callback HandleDeviceReading driver) \<rparr>)) \<and>
   ((\<forall>driver. connect env (create_driver info) \<noteq> Inr (True, driver)) \<longrightarrow>
      connect_device env mgr info = (False, mgr)) \<and>
   (fst (connect_device env mgr info) \<longleftrightarrow>
      (\<exists>driver. connect env (create_driver info) = Inr (True, driver))) \<and>
   (fst (connect_device env mgr info) \<longleftrightarrow>
      (device_type info = BLOOD_PRESSURE \<or> device_type info = PULSE_OXIMETER \<or>
       device_type info = THERMOMETER) \<and>
      BLE_AVAILABLE env \<and> connect_outcome env = Returns \<and> start_notify_outcome env = Returns) \<and>
   (fst (connect_device env mgr info) \<longrightarrow>
      (\<exists>driver. devices (snd (connect_device env mgr info)) (device_id info) = Some driver \<and>
                 status driver = CONNECTED \<and> device_info driver = info)) \<and>
   (\<forall>other. other \<noteq> device_id info \<longrightarrow>
      devices (snd (connect_device env mgr info)) other = devices mgr other)"
proof -
  have a: "\<forall>driver. connect env (create_driver info) = Inr (True, driver) \<longrightarrow>
      connect_device env mgr info =
        (True, mgr\<lparr> devices := (devices mgr)
                 (device_id info \<mapsto> add_callback HandleDeviceReading driver) \<rparr>)"
    by (simp add: connect_device_def)
  have b: "(\<forall>driver. connect env (create_driver info) \<noteq> Inr (True, driver)) \<longrightarrow>
      connect_device env mgr info = (False, mgr)"
    by (auto simp: connect_device_def split: sum.splits prod.splits)
  have c: "fst (connect_device env mgr info) \<longleftrightarrow>
      (\<exists>driver. connect env (create_driver info) = Inr (True, driver))"
    using a b by (metis fst_conv)
  have d: "\<forall>other. other \<noteq> device_id info \<longrightarrow>
      devices (snd (connect_device env mgr info)) other = devices mgr other"
    by (auto simp: connect_device_def split: sum.splits prod.splits)
  have e: "fst (connect_device env mgr info) \<longrightarrow>
      (\<exists>driver. devices (snd (connect_device env mgr info)) (device_id info) = Some driver \<and>
                 status driver = CONNECTED \<and> device_info driver = info)"
  proof
    assume "fst (connect_device env mgr info)"
    with c obtain driver where dr: "connect env (create_driver info) = Inr (True, driver)" by blast
    then have "driver = snd (ble_connect env (create_driver info))" "fst (ble_connect env (create_driver info))"
      by (auto simp: connect_def split: driver_class.splits)
    then have "status driver = CONNECTED \<and> device_info driver = info"
      by (auto simp: ble_connect_def Let_def create_driver_def new_driver_def
          split: if_splits call_outcome.splits)
    with a dr show "\<exists>driver. devices (snd (connect_device env mgr info)) (device_id info) = Some driver \<and>
                 status driver = CONNECTED \<and> device_info driver = info"
      by (simp add: add_callback_def)
  qed
  from a b c d e connect_True_iff[of env info] show ?thesis by blast
qed

theorem connect_device_table_witness:
  "fst (connect_device env_ble_ok mgr_empty info_bp) \<and>
   devices (snd (connect_device env_ble_ok mgr_empty info_bp)) ''bp-1'' \<noteq> None \<and>
   connect_device env_connect_fails mgr_empty info_bp = (False, mgr_empty) \<and>
   connect_device env_ble_ok mgr_empty info_scale = (False, mgr_empty)"
proof -
  note t1 = connect_device_table[of env_ble_ok info_bp mgr_empty]
  note t2 = connect_device_table[of env_connect_fails info_bp mgr_empty]
  note t3 = connect_device_table[of env_ble_ok info_scale mgr_empty]
  have ok: "BLE_AVAILABLE env_ble_ok" "connect_outcome env_ble_ok = Returns"
    "start_notify_outcome env_ble_ok = Returns" "connect_outcome env_connect_fails \<noteq> Returns"
    by (simp_all add: env_ble_ok_def env_connect_fails_def)
  have ty: "device_type info_bp = BLOOD_PRESSURE" "device_id info_bp = ''bp-1''"
    "device_type info_scale = WEIGHT_SCALE"
    by (simp_all add: info_bp_def info_scale_def)
  from t1 have "fst (connect_device env_ble_ok mgr_empty info_bp) \<longleftrightarrow>
      (device_type info_bp = BLOOD_PRESSURE \<or> device_type info_bp = PULSE_OXIMETER \<or>
       device_type info_bp = THERMOMETER) \<and>
      BLE_AVAILABLE env_ble_ok \<and> connect_outcome env_ble_ok = Returns \<and>
      start_notify_outcome env_ble_ok = Returns"
    by blast
  with ok ty have a: "fst (connect_device env_ble_ok mgr_empty info_bp)" by simp
  with t1 ty have b: "devices (snd (connect_device env_ble_ok mgr_empty info_bp)) ''bp-1'' \<noteq> None"
    by auto
  from t2 have "fst (connect_device env_connect_fails mgr_empty info_bp) \<longrightarrow>
      connect_outcome env_connect_fails = Returns"
    by blast
  with ok have "\<not> fst (connect_device env_connect_fails mgr_empty info_bp)" by blast
  with t2 have c: "connect_device env_connect_fails mgr_empty info_bp = (False, mgr_empty)" by blast
  from t3 have "fst (connect_device env_ble_ok mgr_empty info_scale) \<longrightarrow>
      (device_type info_scale = BLOOD_PRESSURE \<or> device_type info_scale = PULSE_OXIMETER \<or>
       device_type info_scale = THERMOMETER)"
    by blast
  with ty have "\<not> fst (connect_device env_ble_ok mgr_empty info_scale)" by auto
  with t3 have d: "connect_device env_ble_ok mgr_empty info_scale = (False, mgr_empty)" by blast
  from a b c d show ?thesis by blast
qed

end
